theory Spec2Isabelle
  imports Complex_Main
begin

section \<open>Clan bot: the points ledger of \<open>main.py\<close>\<close>

text \<open>
  The bot keeps its durable state in SQLite tables and its rate-limiting state in module
  level dictionaries. Every handler is modelled as a function from the state before to a
  result and the state after. Database rows are records, a table with a primary key is a
  map from the key to the row, a table without one is the list of its rows in insertion
  order. Clock reads are parameters: \<open>now\<close> stands for \<open>datetime.utcnow()\<close> and \<open>t\<close> for
  \<open>time.time()\<close>; all reads made during one call of a handler see the same reading.
  Failures of the database connection itself (I/O errors) are not modelled. The one lock
  conflict the bot runs into on its own, a rollover attempted under the pending write of
  \<open>removepoints\<close>, is.
\<close>

subsection \<open>Time\<close>

text \<open>
  A naive \<open>datetime\<close> is the number of microseconds since 0001-01-01T00:00:00, the first
  instant Python can represent. That day is a Monday, so the index of a day modulo 7 is
  \<open>datetime.weekday()\<close> (Monday 0, Sunday 6).
\<close>

type_synonym datetime = int

definition us_per_day :: int where
  "us_per_day = 86400000000"

definition day_of :: "datetime \<Rightarrow> int" where
  "day_of now = now div us_per_day"

definition weekday :: "datetime \<Rightarrow> int" where
  "weekday now = day_of now mod 7"

text \<open>
  \<open>get_week_start\<close>: \<open>(now - timedelta(days=now.weekday())).replace(hour=0, minute=0,
  second=0, microsecond=0)\<close>.
\<close>

definition get_week_start :: "datetime \<Rightarrow> datetime" where
  "get_week_start now = (day_of now - weekday now) * us_per_day"

text \<open>
  A TEXT column that holds a timestamp. \<open>isoformat\<close> and \<open>fromisoformat\<close> are inverse to
  each other on naive datetimes, so a well-formed value is modelled by the datetime it
  denotes. \<open>SqlNull\<close> and \<open>EmptyText\<close> are the two falsy values; \<open>OtherText\<close> is any text on
  which \<open>datetime.fromisoformat\<close> raises, or whose value cannot be compared with a naive
  datetime.
\<close>

datatype time_text = SqlNull | EmptyText | IsoText datetime | OtherText

subsection \<open>Tables\<close>

record clan_row =
  points :: int
  last_week_start :: time_text
  last_week_points :: int
  max_points :: int

record user_row =
  clan_name :: "string option"
  user_points :: int
  streak_days :: int
  last_active :: time_text
  join_date :: time_text
  weekly_cap :: int

record log_row =
  log_user_id :: int
  amount :: int
  source :: string
  timestamp :: datetime
  log_channel_id :: "int option"

record achievement_row =
  ach_user_id :: int
  achievement_name :: string
  earned_date :: datetime

record shop_row =
  item_name :: string
  cost :: int

record channel_multiplier_row =
  multiplier :: real
  channel_name :: string

record seasonal_event_row =
  start_date :: string
  end_date :: string
  point_multiplier :: real
  is_active :: int

text \<open>
  An entry of \<open>user_daily_points\<close>. The \<open>date\<close> is the text \<open>strftime('%Y-%m-%d')\<close> of a
  day, modelled by the index of that day; \<open>None\<close> is the empty text of a fresh entry.
\<close>

record daily_entry =
  date :: "int option"
  daily_points :: int

record bot_state =
  clans :: "string \<rightharpoonup> clan_row"
  users :: "int \<rightharpoonup> user_row"
  logs :: "log_row list"
  achievements :: "achievement_row list"
  shop :: "shop_row list"
  bonus_role :: "string option"
  channel_multipliers :: "int \<rightharpoonup> channel_multiplier_row"
  seasonal_events :: "string \<rightharpoonup> seasonal_event_row"
  last_message_time :: "int \<rightharpoonup> real"
  user_daily_points :: "int \<rightharpoonup> daily_entry"

subsection \<open>Weekly cycle\<close>

text \<open>
  \<open>get_clan_points\<close> returns \<open>None\<close> when the clan has no row, and also when parsing the
  stored text raises (the handler of the \<open>try\<close> returns \<open>None\<close>). A falsy
  \<open>last_week_start\<close> skips the comparison altogether.
\<close>

definition get_clan_points :: "datetime \<Rightarrow> string \<Rightarrow> bot_state \<Rightarrow> int option \<times> bot_state" where
  "get_clan_points now clan s =
     (case clans s clan of
        None \<Rightarrow> (None, s)
      | Some data \<Rightarrow>
          (case last_week_start data of
             IsoText last_reset \<Rightarrow>
               if get_week_start now > last_reset
               then (Some 0,
                     s\<lparr>clans := (clans s)(clan \<mapsto>
                          data\<lparr>last_week_points := points data, points := 0,
                               last_week_start := IsoText (get_week_start now)\<rparr>)\<rparr>)
               else (Some (points data), s)
           | OtherText \<Rightarrow> (None, s)
           | _ \<Rightarrow> (Some (points data), s)))"

subsection \<open>Rate limiting state\<close>

definition MESSAGE_COOLDOWN :: real where
  "MESSAGE_COOLDOWN = 5"

definition MAX_DAILY_POINTS :: int where
  "MAX_DAILY_POINTS = 500"

text \<open>
  \<open>last_message_time\<close> is a \<open>defaultdict(float)\<close>: reading a missing key stores 0.0 for it.
  The subtraction is taken over the reals; rounding of floats is not modelled.
\<close>

definition is_rate_limited :: "real \<Rightarrow> int \<Rightarrow> bot_state \<Rightarrow> bool \<times> bot_state" where
  "is_rate_limited t user_id s =
     (let last = (case last_message_time s user_id of None \<Rightarrow> 0 | Some v \<Rightarrow> v)
      in (t - last < MESSAGE_COOLDOWN,
          s\<lparr>last_message_time := (last_message_time s)(user_id \<mapsto> last)\<rparr>))"

text \<open>
  \<open>user_daily_points\<close> is a \<open>defaultdict\<close> too; \<open>daily_lookup\<close> is the entry a read
  yields. \<open>check_daily_limit\<close> resets the entry on a new day and stores nothing else.
\<close>

definition daily_lookup :: "bot_state \<Rightarrow> int \<Rightarrow> daily_entry" where
  "daily_lookup s user_id =
     (case user_daily_points s user_id of
        None \<Rightarrow> \<lparr>date = None, daily_points = 0\<rparr>
      | Some d \<Rightarrow> d)"

definition check_daily_limit :: "datetime \<Rightarrow> int \<Rightarrow> int \<Rightarrow> bot_state \<Rightarrow> bool \<times> bot_state" where
  "check_daily_limit now user_id points_to_add s =
     (let today = Some (day_of now);
          user_data = daily_lookup s user_id;
          user_data = (if date user_data \<noteq> today
                       then user_data\<lparr>date := today, daily_points := 0\<rparr>
                       else user_data)
      in (daily_points user_data + points_to_add \<le> MAX_DAILY_POINTS,
          s\<lparr>user_daily_points := (user_daily_points s)(user_id \<mapsto> user_data)\<rparr>))"

subsection \<open>Clan cap\<close>

definition can_add_to_clan :: "datetime \<Rightarrow> string \<Rightarrow> int \<Rightarrow> bot_state \<Rightarrow> bool \<times> bot_state" where
  "can_add_to_clan now clan amt s =
     (let (current, s1) = get_clan_points now clan s
      in case clans s1 clan of
           None \<Rightarrow> (False, s1)
         | Some data \<Rightarrow>
             (case current of
                None \<Rightarrow> (False, s1)
              | Some cur \<Rightarrow> (cur + amt \<le> max_points data, s1)))"

subsection \<open>Achievements\<close>

text \<open>Decimal rendering of an integer, as an f-string does it.\<close>

function str_nat :: "nat \<Rightarrow> string" where
  "str_nat n =
     (if n < 10 then [''0123456789'' ! n]
      else str_nat (n div 10) @ [''0123456789'' ! (n mod 10)])"
  by pat_completeness auto
termination
  by (relation "measure id") auto

declare str_nat.simps [simp del]

definition str_int :: "int \<Rightarrow> string" where
  "str_int i = (if i < 0 then CHR ''-'' # str_nat (nat (- i)) else str_nat (nat i))"

definition milestones :: "int list" where
  "milestones = [100, 500, 1000, 2500, 5000, 10000]"

text \<open>The f-string \<open>"Reached {milestone} Points"\<close>.\<close>

definition milestone_name :: "int \<Rightarrow> string" where
  "milestone_name milestone = ''Reached '' @ str_int milestone @ '' Points''"

definition ach_key :: "achievement_row \<Rightarrow> int \<times> string" where
  "ach_key r = (ach_user_id r, achievement_name r)"

text \<open>
  \<open>INSERT OR IGNORE\<close> under the primary key \<open>(user_id, achievement_name)\<close>: a row whose key
  is already in the table is dropped.
\<close>

definition insert_or_ignore :: "achievement_row \<Rightarrow> achievement_row list \<Rightarrow> achievement_row list" where
  "insert_or_ignore r tbl = (if ach_key r \<in> set (map ach_key tbl) then tbl else tbl @ [r])"

text \<open>
  The loop of \<open>check_achievements\<close> over the milestones. The name is appended to the
  result whether or not the insertion stored a row.
\<close>

fun achievements_loop ::
  "datetime \<Rightarrow> int \<Rightarrow> int \<Rightarrow> int list \<Rightarrow> achievement_row list \<Rightarrow> string list
     \<Rightarrow> achievement_row list \<times> string list" where
  "achievements_loop now user_id pts [] tbl acc = (tbl, acc)"
| "achievements_loop now user_id pts (milestone # rest) tbl acc =
     (if pts \<ge> milestone
      then let name = milestone_name milestone
           in achievements_loop now user_id pts rest
                (insert_or_ignore
                   \<lparr>ach_user_id = user_id, achievement_name = name, earned_date = now\<rparr> tbl)
                (acc @ [name])
      else achievements_loop now user_id pts rest tbl acc)"

text \<open>A user without a row makes the function return nothing (\<open>None\<close>).\<close>

definition check_achievements :: "datetime \<Rightarrow> int \<Rightarrow> bot_state \<Rightarrow> string list option \<times> bot_state" where
  "check_achievements now user_id s =
     (case users s user_id of
        None \<Rightarrow> (None, s)
      | Some row \<Rightarrow>
          (let (tbl, names) =
                 achievements_loop now user_id (user_points row) milestones (achievements s) []
           in (Some names, s\<lparr>achievements := tbl\<rparr>)))"

subsection \<open>The award engine\<close>

definition add_points_to_clan_and_user ::
  "datetime \<Rightarrow> int \<Rightarrow> string \<Rightarrow> int \<Rightarrow> string \<Rightarrow> int option \<Rightarrow> bot_state \<Rightarrow> bool \<times> bot_state" where
  "add_points_to_clan_and_user now user_id clan amt src channel_id s =
     (let (ok, s1) = can_add_to_clan now clan amt s in
      if \<not> ok then (False, s1)
      else
        let (ok2, s2) = check_daily_limit now user_id amt s1 in
        if \<not> ok2 then (False, s2)
        else
          let (current_clan_points, s3) = get_clan_points now clan s2 in
          case current_clan_points of
            None \<Rightarrow> (False, s3)
          | Some cur \<Rightarrow>
              let new_clan_total = cur + amt;
                  s4 = s3\<lparr>clans :=
                         (case clans s3 clan of
                            None \<Rightarrow> clans s3
                          | Some data \<Rightarrow> (clans s3)(clan \<mapsto> data\<lparr>points := new_clan_total\<rparr>))\<rparr>;
                  s5 = s4\<lparr>users :=
                         (case users s4 user_id of
                            Some row \<Rightarrow>
                              (users s4)(user_id \<mapsto>
                                 row\<lparr>user_points := user_points row + amt,
                                     last_active := IsoText now\<rparr>)
                          | None \<Rightarrow>
                              (users s4)(user_id \<mapsto>
                                 \<lparr>clan_name = Some clan, user_points = amt, streak_days = 0,
                                  last_active = IsoText now, join_date = IsoText now,
                                  weekly_cap = 2000\<rparr>))\<rparr>;
                  s6 = s5\<lparr>logs := logs s5 @
                         [\<lparr>log_user_id = user_id, amount = amt, source = src,
                           timestamp = now, log_channel_id = channel_id\<rparr>]\<rparr>;
                  entry = daily_lookup s6 user_id;
                  s7 = s6\<lparr>user_daily_points := (user_daily_points s6)(user_id \<mapsto>
                         entry\<lparr>date := Some (day_of now),
                               daily_points := daily_points entry + amt\<rparr>)\<rparr>;
                  (_, s8) = check_achievements now user_id s7
              in (True, s8))"

text \<open>
  The writes of the \<open>with\<close> block of \<open>add_points_to_clan_and_user\<close> (clan row, user
  row, log row, daily tracking) as one function of the clan points read, so that the
  proofs can name them.
\<close>

definition award_writes ::
  "datetime \<Rightarrow> int \<Rightarrow> string \<Rightarrow> int \<Rightarrow> string \<Rightarrow> int option \<Rightarrow> int \<Rightarrow> bot_state \<Rightarrow> bot_state" where
  "award_writes now user_id clan amt src channel_id cur s3 =
     (let new_clan_total = cur + amt;
          s4 = s3\<lparr>clans :=
                 (case clans s3 clan of
                    None \<Rightarrow> clans s3
                  | Some data \<Rightarrow> (clans s3)(clan \<mapsto> data\<lparr>points := new_clan_total\<rparr>))\<rparr>;
          s5 = s4\<lparr>users :=
                 (case users s4 user_id of
                    Some row \<Rightarrow>
                      (users s4)(user_id \<mapsto>
                         row\<lparr>user_points := user_points row + amt,
                             last_active := IsoText now\<rparr>)
                  | None \<Rightarrow>
                      (users s4)(user_id \<mapsto>
                         \<lparr>clan_name = Some clan, user_points = amt, streak_days = 0,
                          last_active = IsoText now, join_date = IsoText now,
                          weekly_cap = 2000\<rparr>))\<rparr>;
          s6 = s5\<lparr>logs := logs s5 @
                 [\<lparr>log_user_id = user_id, amount = amt, source = src,
                   timestamp = now, log_channel_id = channel_id\<rparr>]\<rparr>;
          entry = daily_lookup s6 user_id
      in s6\<lparr>user_daily_points := (user_daily_points s6)(user_id \<mapsto>
              entry\<lparr>date := Some (day_of now),
                    daily_points := daily_points entry + amt\<rparr>)\<rparr>)"

subsection \<open>Clan membership\<close>

text \<open>
  What the handlers read from the chat platform: the roles of the guild and, for each
  cached member, the roles that member holds.
\<close>

record role =
  role_id :: int
  role_name :: string

record guild =
  guild_roles :: "role list"
  members :: "int \<rightharpoonup> role list"

text \<open>
  \<open>get_user_clan\<close>: the first role of the member that is named like a clan wins over the
  stored assignment and is written back. A row inserted here gets no \<open>last_active\<close>.
\<close>

definition get_user_clan ::
  "datetime \<Rightarrow> int \<Rightarrow> guild option \<Rightarrow> bot_state \<Rightarrow> string option \<times> bot_state" where
  "get_user_clan now user_id g s =
     (let db_clan = (case users s user_id of None \<Rightarrow> None | Some row \<Rightarrow> clan_name row);
          member = (case g of None \<Rightarrow> None | Some gd \<Rightarrow> members gd user_id)
      in case member of
           None \<Rightarrow> (db_clan, s)
         | Some roles \<Rightarrow>
             (case find (\<lambda>r. clans s (role_name r) \<noteq> None) roles of
                None \<Rightarrow> (db_clan, s)
              | Some r \<Rightarrow>
                  if db_clan \<noteq> Some (role_name r)
                  then (Some (role_name r),
                        s\<lparr>users :=
                           (case users s user_id of
                              Some row \<Rightarrow>
                                (users s)(user_id \<mapsto> row\<lparr>clan_name := Some (role_name r)\<rparr>)
                            | None \<Rightarrow>
                                (users s)(user_id \<mapsto>
                                   \<lparr>clan_name = Some (role_name r), user_points = 0,
                                    streak_days = 0, last_active = SqlNull,
                                    join_date = IsoText now, weekly_cap = 2000\<rparr>))\<rparr>)
                  else (Some (role_name r), s)))"

subsection \<open>Administrative commands and the shop\<close>

datatype reply =
    AmountNotPositive | AmountTooLarge | NotInClan
  | CannotAdd int | Added | AddFailed
  | NoPointsToRemove | OnlyHas int | Removed
  | ErrorOccurred
  | NoSuchItem | NotRegistered | NotEnoughPoints | Purchased
  | BadMultiplier | MultiplierSet

text \<open>
  \<open>addpoints\<close>. The test \<open>if not clan\<close> rejects a missing clan and the empty name alike.
  When the cap check fails the handler reads the points again for its message;
  formatting \<open>None\<close> there raises, which the command framework reports as an error.
  \<open>get_max_clan_points\<close> only feeds the text of that message and is left out.
\<close>

definition addpoints ::
  "datetime \<Rightarrow> guild option \<Rightarrow> int \<Rightarrow> int \<Rightarrow> int \<Rightarrow> bot_state \<Rightarrow> reply \<times> bot_state" where
  "addpoints now g ctx_channel user_id amt s =
     (if amt \<le> 0 then (AmountNotPositive, s)
      else if amt > 10000 then (AmountTooLarge, s)
      else
        let (clan_opt, s1) = get_user_clan now user_id g s in
        case clan_opt of
          None \<Rightarrow> (NotInClan, s1)
        | Some clan \<Rightarrow>
            if clan = [] then (NotInClan, s1)
            else
              let (ok, s2) = can_add_to_clan now clan amt s1 in
              if \<not> ok
              then (let (current, s3) = get_clan_points now clan s2
                    in case current of
                         None \<Rightarrow> (ErrorOccurred, s3)
                       | Some cur \<Rightarrow> (CannotAdd cur, s3))
              else
                let (done, s3) =
                      add_points_to_clan_and_user now user_id clan amt ''admin''
                        (Some ctx_channel) s2
                in if done then (Added, s3) else (AddFailed, s3))"

text \<open>
  \<open>get_clan_points\<close> as it runs inside \<open>removepoints\<close>, on a connection of its own while
  the caller's connection holds the write lock for its pending update of the user row.
  The read sees the committed clans table. The \<open>UPDATE\<close> of a rollover cannot get the
  lock: after the time-out it raises, the handler of the \<open>try\<close> returns \<open>None\<close>, and
  nothing is written.
\<close>

definition get_clan_points_locked ::
  "datetime \<Rightarrow> string \<Rightarrow> bot_state \<Rightarrow> int option \<times> bot_state" where
  "get_clan_points_locked now clan s =
     (case clans s clan of
        None \<Rightarrow> (None, s)
      | Some data \<Rightarrow>
          (case last_week_start data of
             IsoText last_reset \<Rightarrow>
               if get_week_start now > last_reset
               then (None, s)
               else (Some (points data), s)
           | OtherText \<Rightarrow> (None, s)
           | _ \<Rightarrow> (Some (points data), s)))"

text \<open>
  \<open>removepoints\<close>. The update of the user row is pending when the clan is read; if that
  read yields \<open>None\<close>, the subtraction raises and the pending update is rolled back.
\<close>

definition removepoints ::
  "datetime \<Rightarrow> guild option \<Rightarrow> int \<Rightarrow> int \<Rightarrow> int \<Rightarrow> bot_state \<Rightarrow> reply \<times> bot_state" where
  "removepoints now g ctx_channel user_id amt s =
     (if amt \<le> 0 then (AmountNotPositive, s)
      else if amt > 10000 then (AmountTooLarge, s)
      else
        let (clan_opt, s1) = get_user_clan now user_id g s in
        case clan_opt of
          None \<Rightarrow> (NotInClan, s1)
        | Some clan \<Rightarrow>
            if clan = [] then (NotInClan, s1)
            else
              (case users s1 user_id of
                 None \<Rightarrow> (NoPointsToRemove, s1)
               | Some row \<Rightarrow>
                   let current_user_points = user_points row in
                   if current_user_points < amt then (OnlyHas current_user_points, s1)
                   else
                     let new_user_points = current_user_points - amt;
                         s2 = s1\<lparr>users := (users s1)(user_id \<mapsto>
                                   row\<lparr>user_points := new_user_points\<rparr>)\<rparr>;
                         (current_clan_points, s3) = get_clan_points_locked now clan s2
                     in (case current_clan_points of
                           None \<Rightarrow> (ErrorOccurred, s1)
                         | Some cur \<Rightarrow>
                             let new_clan_points = max 0 (cur - amt);
                                 s4 = s3\<lparr>clans :=
                                        (case clans s3 clan of
                                           None \<Rightarrow> clans s3
                                         | Some data \<Rightarrow>
                                             (clans s3)(clan \<mapsto>
                                                data\<lparr>points := new_clan_points\<rparr>))\<rparr>;
                                 s5 = s4\<lparr>logs := logs s4 @
                                        [\<lparr>log_user_id = user_id, amount = - amt,
                                          source = ''admin_removal'', timestamp = now,
                                          log_channel_id = Some ctx_channel\<rparr>]\<rparr>
                             in (Removed, s5))))"

text \<open>\<open>purchase\<close>: the first shop row with the name decides the cost.\<close>

definition purchase :: "int \<Rightarrow> string \<Rightarrow> bot_state \<Rightarrow> reply \<times> bot_state" where
  "purchase user_id nm s =
     (case find (\<lambda>r. item_name r = nm) (shop s) of
        None \<Rightarrow> (NoSuchItem, s)
      | Some item \<Rightarrow>
          (case users s user_id of
             None \<Rightarrow> (NotRegistered, s)
           | Some user_data \<Rightarrow>
               let user_pts = user_points user_data in
               if user_pts < cost item then (NotEnoughPoints, s)
               else
                 let new_points = user_pts - cost item
                 in (Purchased,
                     s\<lparr>users := (users s)(user_id \<mapsto>
                          user_data\<lparr>user_points := new_points\<rparr>)\<rparr>)))"

definition setchannelmultiplier :: "int \<Rightarrow> string \<Rightarrow> real \<Rightarrow> bot_state \<Rightarrow> reply \<times> bot_state" where
  "setchannelmultiplier channel nm m s =
     (if m < 0.1 \<or> m > 5.0 then (BadMultiplier, s)
      else (MultiplierSet,
            s\<lparr>channel_multipliers := (channel_multipliers s)(channel \<mapsto>
                 \<lparr>multiplier = m, channel_name = nm\<rparr>)\<rparr>))"

subsection \<open>Message handler\<close>

text \<open>
  The content of a message is a list of characters, one per code point, so that its
  length is Python's \<open>len\<close>; \<open>py_isspace\<close> is \<open>str.isspace\<close> on the code points below 256.
\<close>

record message =
  author_id :: int
  author_bot :: bool
  default_type :: bool
  content :: string
  channel_id :: int
  msg_guild :: "guild option"
  author_roles :: "role list"

definition is_space_char :: "char \<Rightarrow> bool" where
  "is_space_char c = ((of_char c :: nat) \<in> {9, 10, 11, 12, 13, 28, 29, 30, 31, 32, 133, 160})"

definition py_isspace :: "string \<Rightarrow> bool" where
  "py_isspace cs = (cs \<noteq> [] \<and> list_all is_space_char cs)"

text \<open>\<open>int(x)\<close> on a float: truncation toward zero.\<close>

definition py_int :: "real \<Rightarrow> int" where
  "py_int x = (if x \<ge> 0 then \<lfloor>x\<rfloor> else \<lceil>x\<rceil>)"

text \<open>
  The amount of a message award, lines 1962 to 1971 of \<open>on_message\<close>. The products
  \<open>1 * 1.5\<close> and \<open>5 * 1.5\<close> are exact in floating point.
\<close>

definition message_amount :: "bool \<Rightarrow> datetime \<Rightarrow> string \<Rightarrow> int" where
  "message_amount has_bonus now cs =
     (let is_weekend = (weekday now \<ge> 5);
          base_amount = (if has_bonus then 5 else 1);
          base_amount = (if is_weekend then py_int (real_of_int base_amount * 1.5)
                         else base_amount);
          base_amount = (if length cs > 50 then base_amount + 1 else base_amount)
      in base_amount)"

datatype outcome =
    Ignored | RateLimited | TooShort | NoClan | NoClanRole | Errored
  | NotAwarded int
  | Awarded int "int option"

text \<open>
  \<open>on_message\<close>. \<open>Awarded a m\<close> carries the amount and the milestone announced, if any.
  A missing guild or an uncached member raises inside the handler, which logs the
  error and stops (\<open>Errored\<close>); what was written before stays. The command dispatch of
  the \<open>finally\<close> clause is not part of the model.
\<close>

definition on_message :: "real \<Rightarrow> datetime \<Rightarrow> message \<Rightarrow> bot_state \<Rightarrow> outcome \<times> bot_state" where
  "on_message t now msg s =
     (if author_bot msg \<or> \<not> default_type msg then (Ignored, s)
      else
        let (limited, s1) = is_rate_limited t (author_id msg) s in
        if limited then (RateLimited, s1)
        else if length (content msg) < 3 \<or> py_isspace (content msg) then (TooShort, s1)
        else
          let s2 = s1\<lparr>last_message_time := (last_message_time s1)(author_id msg \<mapsto> t)\<rparr>;
              (clan_opt, s3) = get_user_clan now (author_id msg) (msg_guild msg) s2
          in (case clan_opt of
                None \<Rightarrow> (NoClan, s3)
              | Some clan \<Rightarrow>
                  if clan = [] then (NoClan, s3)
                  else
                    (case msg_guild msg of
                       None \<Rightarrow> (Errored, s3)
                     | Some gd \<Rightarrow>
                         (case find (\<lambda>r. role_name r = clan) (guild_roles gd) of
                            None \<Rightarrow> (NoClanRole, s3)
                          | Some clan_role \<Rightarrow>
                              (case members gd (author_id msg) of
                                 None \<Rightarrow> (Errored, s3)
                               | Some member_roles \<Rightarrow>
                                   if clan_role \<notin> set member_roles then (NoClanRole, s3)
                                   else
                                     let has_bonus =
                                           (case bonus_role s3 of
                                              None \<Rightarrow> False
                                            | Some b \<Rightarrow>
                                                b \<noteq> [] \<and>
                                                b \<in> set (map role_name (author_roles msg)));
                                         amt = message_amount has_bonus now (content msg);
                                         (done, s4) =
                                           add_points_to_clan_and_user now (author_id msg)
                                             clan amt ''message'' (Some (channel_id msg)) s3
                                     in if \<not> done then (NotAwarded amt, s4)
                                        else
                                          (case users s4 (author_id msg) of
                                             None \<Rightarrow> (Awarded amt None, s4)
                                           | Some row \<Rightarrow>
                                               (Awarded amt
                                                  (find (\<lambda>m. user_points row - amt < m \<and>
                                                               m \<le> user_points row)
                                                     milestones),
                                                s4)))))))"

text \<open>The amount of an award that was made, \<open>None\<close> for every other outcome.\<close>

fun awarded_amount :: "outcome \<Rightarrow> int option" where
  "awarded_amount (Awarded a m) = Some a"
| "awarded_amount _ = None"

subsection \<open>Sequences of awards and the ledger\<close>

text \<open>One call of \<open>add_points_to_clan_and_user\<close>, with the time at which it is made.\<close>

record award_call =
  call_now :: datetime
  call_user :: int
  call_clan :: string
  call_amount :: int
  call_source :: string
  call_channel :: "int option"

fun run_awards :: "award_call list \<Rightarrow> bot_state \<Rightarrow> bot_state" where
  "run_awards [] s = s"
| "run_awards (c # cs) s =
     run_awards cs
       (snd (add_points_to_clan_and_user (call_now c) (call_user c) (call_clan c)
               (call_amount c) (call_source c) (call_channel c) s))"

text \<open>
  The two sides of the reconciliation: the sum of the amounts logged for a user, and
  the points stored for the user (0 for a user without a row).
\<close>

definition ledger_sum :: "bot_state \<Rightarrow> int \<Rightarrow> int" where
  "ledger_sum s user_id =
     sum_list (map amount (filter (\<lambda>e. log_user_id e = user_id) (logs s)))"

definition stored_points :: "bot_state \<Rightarrow> int \<Rightarrow> int" where
  "stored_points s user_id =
     (case users s user_id of None \<Rightarrow> 0 | Some row \<Rightarrow> user_points row)"

text \<open>
  The points of the daily tracking that count for the day of \<open>now\<close>: those of an entry
  dated today, 0 for an entry of another day or no entry.
\<close>

definition awarded_today :: "datetime \<Rightarrow> bot_state \<Rightarrow> int \<Rightarrow> int" where
  "awarded_today now s user_id =
     (if date (daily_lookup s user_id) = Some (day_of now)
      then daily_points (daily_lookup s user_id) else 0)"

subsection \<open>The award amount of the specification\<close>

text \<open>
  Section 4.4 of the specification in its own words, for comparison with the handler:
  the channel multiplier, if one is configured for the channel, and the multiplier of
  an active seasonal event, if there is one, are applied to the base amount, and the
  product is rounded to the nearest integer, halves upwards.
\<close>

definition round_half_up :: "real \<Rightarrow> int" where
  "round_half_up x = \<lfloor>x + 1 / 2\<rfloor>"

definition spec_final_amount :: "int \<Rightarrow> real option \<Rightarrow> real option \<Rightarrow> int" where
  "spec_final_amount base_amount channel_mult event_mult =
     round_half_up
       (real_of_int base_amount
          * (case channel_mult of None \<Rightarrow> 1 | Some m \<Rightarrow> m)
          * (case event_mult of None \<Rightarrow> 1 | Some m \<Rightarrow> m))"

subsection \<open>Example data\<close>

text \<open>
  Day 738885 is Monday 2024-01-01. \<open>wed_noon\<close> is Wednesday 2024-01-24 12:00:00 and
  \<open>wed_evening\<close> the same day at 18:00:00; \<open>sat_noon\<close> is Saturday 2024-01-27 12:00:00.
\<close>

definition wed_noon :: datetime where
  "wed_noon = 738908 * 86400000000 + 43200000000"

definition wed_evening :: datetime where
  "wed_evening = 738908 * 86400000000 + 64800000000"

definition sat_noon :: datetime where
  "sat_noon = 738911 * 86400000000 + 43200000000"

text \<open>\<open>thu_noon\<close> is Thursday 2024-01-25 12:00:00, the day after \<open>wed_noon\<close>.\<close>

definition thu_noon :: datetime where
  "thu_noon = 738909 * 86400000000 + 43200000000"

definition empty_state :: bot_state where
  "empty_state =
     \<lparr>clans = Map.empty, users = Map.empty, logs = [], achievements = [], shop = [],
      bonus_role = None, channel_multipliers = Map.empty, seasonal_events = Map.empty,
      last_message_time = Map.empty, user_daily_points = Map.empty\<rparr>"

text \<open>A clan last reset on Monday 2024-01-01, three weeks before the week of \<open>wed_noon\<close>.\<close>

definition wolves :: clan_row where
  "wolves =
     \<lparr>points = 1200, last_week_start = IsoText (738885 * 86400000000),
      last_week_points = 0, max_points = 20000\<rparr>"

definition stale_state :: bot_state where
  "stale_state = empty_state\<lparr>clans := [''Wolves'' \<mapsto> wolves]\<rparr>"

text \<open>A clan whose \<open>last_week_start\<close> is the empty text of the column default.\<close>

definition foxes :: clan_row where
  "foxes =
     \<lparr>points = 1200, last_week_start = EmptyText, last_week_points = 7, max_points = 20000\<rparr>"

definition unset_state :: bot_state where
  "unset_state = empty_state\<lparr>clans := [''Foxes'' \<mapsto> foxes]\<rparr>"

text \<open>
  Two awards to the clan of \<open>stale_state\<close>: 5 points for a message, then an
  administrative 30000 that the cap refuses.
\<close>

definition demo_calls :: "award_call list" where
  "demo_calls =
     [\<lparr>call_now = wed_noon, call_user = 1, call_clan = ''Wolves'', call_amount = 5,
       call_source = ''message'', call_channel = Some 7\<rparr>,
      \<lparr>call_now = wed_evening, call_user = 2, call_clan = ''Wolves'', call_amount = 30000,
       call_source = ''admin'', call_channel = Some 7\<rparr>]"

text \<open>
  A user who has been awarded 300 points on the day of \<open>wed_noon\<close>, in a clan whose week
  started on Monday 2024-01-22.
\<close>

definition budget_state :: bot_state where
  "budget_state =
     empty_state
       \<lparr>clans := [''Wolves'' \<mapsto>
          \<lparr>points = 300, last_week_start = IsoText (738906 * 86400000000),
           last_week_points = 0, max_points = 20000\<rparr>],
        users := [1 \<mapsto>
          \<lparr>clan_name = Some ''Wolves'', user_points = 300, streak_days = 0,
           last_active = IsoText (738908 * 86400000000),
           join_date = IsoText (738908 * 86400000000), weekly_cap = 2000\<rparr>],
        logs := [\<lparr>log_user_id = 1, amount = 300, source = ''admin'',
                  timestamp = 738908 * 86400000000, log_channel_id = Some 7\<rparr>],
        user_daily_points := [1 \<mapsto> \<lparr>date = Some 738908, daily_points = 300\<rparr>]\<rparr>"

text \<open>
  A guild with a clan role and a bonus role. Member 1 holds both, member 2 the clan
  role only. In \<open>chat_state\<close> the clan exists, its week is the current one, and
  \<open>VIP\<close> is the configured bonus role; nobody has a user row yet.
\<close>

definition wolves_role :: role where
  "wolves_role = \<lparr>role_id = 10, role_name = ''Wolves''\<rparr>"

definition vip_role :: role where
  "vip_role = \<lparr>role_id = 11, role_name = ''VIP''\<rparr>"

definition demo_guild :: guild where
  "demo_guild =
     \<lparr>guild_roles = [wolves_role, vip_role],
      members = [1 \<mapsto> [wolves_role, vip_role], 2 \<mapsto> [wolves_role]]\<rparr>"

definition chat_state :: bot_state where
  "chat_state =
     empty_state
       \<lparr>clans := [''Wolves'' \<mapsto>
          \<lparr>points = 0, last_week_start = IsoText (738906 * 86400000000),
           last_week_points = 0, max_points = 20000\<rparr>],
        bonus_role := Some ''VIP''\<rparr>"

text \<open>A message of 60 characters by member 1, and a short one by member 2.\<close>

definition vip_message :: message where
  "vip_message =
     \<lparr>author_id = 1, author_bot = False, default_type = True,
      content = replicate 60 CHR ''a'', channel_id = 7, msg_guild = Some demo_guild,
      author_roles = [wolves_role, vip_role]\<rparr>"

definition plain_message :: message where
  "plain_message =
     \<lparr>author_id = 2, author_bot = False, default_type = True,
      content = ''hello world'', channel_id = 7, msg_guild = Some demo_guild,
      author_roles = [wolves_role]\<rparr>"

text \<open>The state after an administrator has set the multiplier of channel 7 to 2.\<close>

definition doubled_state :: bot_state where
  "doubled_state = snd (setchannelmultiplier 7 ''general'' 2 chat_state)"

text \<open>
  A user with 100 points, all of them logged, and a shop that sells a badge for 30.
\<close>

definition shop_state :: bot_state where
  "shop_state =
     empty_state
       \<lparr>users := [1 \<mapsto>
          \<lparr>clan_name = Some ''Wolves'', user_points = 100, streak_days = 0,
           last_active = IsoText (738908 * 86400000000),
           join_date = IsoText (738908 * 86400000000), weekly_cap = 2000\<rparr>],
        logs := [\<lparr>log_user_id = 1, amount = 100, source = ''admin'',
                  timestamp = 738908 * 86400000000, log_channel_id = Some 7\<rparr>],
        shop := [\<lparr>item_name = ''Badge'', cost = 30\<rparr>]\<rparr>"

text \<open>
  A member with 300 points of the clan of \<open>stale_state\<close>, whose week is over; and a
  member of the clan of \<open>chat_state\<close> with no points and nothing awarded today.
\<close>

definition stale_member_state :: bot_state where
  "stale_member_state =
     stale_state
       \<lparr>users := [1 \<mapsto>
          \<lparr>clan_name = Some ''Wolves'', user_points = 300, streak_days = 0,
           last_active = IsoText (738885 * 86400000000),
           join_date = IsoText (738885 * 86400000000), weekly_cap = 2000\<rparr>]\<rparr>"

definition fresh_member_state :: bot_state where
  "fresh_member_state =
     chat_state
       \<lparr>users := [1 \<mapsto>
          \<lparr>clan_name = Some ''Wolves'', user_points = 0, streak_days = 0,
           last_active = SqlNull, join_date = IsoText (738908 * 86400000000),
           weekly_cap = 2000\<rparr>]\<rparr>"

section \<open>Properties\<close>

subsection \<open>Weekly cycle\<close>

lemma weekday_range: "0 \<le> weekday now \<and> weekday now < 7"
  by (simp add: weekday_def)

lemma get_week_start_monday:
  "weekday (get_week_start now) = 0 \<and> get_week_start now mod us_per_day = 0"
  by (simp add: get_week_start_def weekday_def day_of_def us_per_day_def)

lemma get_week_start_bounds:
  "get_week_start now \<le> now \<and> now < get_week_start now + 7 * us_per_day"
proof -
  define D where "D = us_per_day"
  define d where "d = now div D"
  define w where "w = d mod 7"
  have Dpos: "0 < D" by (simp add: D_def us_per_day_def)
  have w: "0 \<le> w" "w \<le> 6" by (simp_all add: w_def)
  have eq: "now = d * D + now mod D" by (simp add: d_def)
  have m: "0 \<le> now mod D" "now mod D < D" using Dpos by simp_all
  have lo: "d * D \<le> now" using eq m(1) by linarith
  have hi: "now < (d + 1) * D" using eq m(2) by (simp add: algebra_simps)
  have a: "(d - w) * D \<le> d * D"
    using w(1) Dpos by (simp add: mult_right_mono)
  have b: "(d + 1) * D \<le> (d - w + 7) * D"
    using w(2) Dpos by (intro mult_right_mono) simp_all
  have ws: "get_week_start now = (d - w) * D"
    by (simp add: get_week_start_def weekday_def day_of_def d_def w_def D_def)
  have lo': "(d - w) * D \<le> now" using a lo by linarith
  have "(d - w + 7) * D = (d - w) * D + 7 * D" by (simp add: algebra_simps)
  with hi b have hi': "now < (d - w) * D + 7 * D" by linarith
  from lo' hi' show ?thesis
    unfolding ws D_def by blast
qed

text \<open>
  C5: when the stored \<open>last_week_start\<close> of a clan is strictly earlier than the start of
  the current week, reading the clan's points archives the current points as
  \<open>last_week_points\<close>, sets \<open>points\<close> to 0 and \<open>last_week_start\<close> to the start of the
  current week, and returns 0. That start is a Monday at 00:00:00, the latest one not
  after \<open>now\<close>. A read that follows in the same week changes nothing and returns the
  stored points, which are 0.
\<close>

theorem get_clan_points_rollover_once:
  assumes "clans s clan = Some c"
      and "last_week_start c = IsoText t0"
      and "t0 < get_week_start now"
      and "get_week_start now2 = get_week_start now"
  shows "get_clan_points now clan s =
           (Some 0,
            s\<lparr>clans := (clans s)(clan \<mapsto>
                 c\<lparr>last_week_points := points c, points := 0,
                   last_week_start := IsoText (get_week_start now)\<rparr>)\<rparr>)
         \<and> weekday (get_week_start now) = 0
         \<and> get_week_start now mod us_per_day = 0
         \<and> get_week_start now \<le> now
         \<and> now < get_week_start now + 7 * us_per_day
         \<and> get_clan_points now2 clan (snd (get_clan_points now clan s)) =
             (Some 0, snd (get_clan_points now clan s))"
proof -
  have first: "get_clan_points now clan s =
           (Some 0,
            s\<lparr>clans := (clans s)(clan \<mapsto>
                 c\<lparr>last_week_points := points c, points := 0,
                   last_week_start := IsoText (get_week_start now)\<rparr>)\<rparr>)"
    using assms(1-3) by (simp add: get_clan_points_def)
  have second: "get_clan_points now2 clan (snd (get_clan_points now clan s)) =
             (Some 0, snd (get_clan_points now clan s))"
    unfolding first using assms(4) by (simp add: get_clan_points_def)
  from first second get_week_start_monday [of now] get_week_start_bounds [of now]
  show ?thesis by simp
qed

theorem get_clan_points_rollover_once_witness:
  "fst (get_clan_points wed_noon ''Wolves'' stale_state) = Some 0
   \<and> clans (snd (get_clan_points wed_noon ''Wolves'' stale_state)) ''Wolves'' =
       Some \<lparr>points = 0, last_week_start = IsoText (738906 * 86400000000),
             last_week_points = 1200, max_points = 20000\<rparr>
   \<and> get_clan_points wed_evening ''Wolves''
         (snd (get_clan_points wed_noon ''Wolves'' stale_state)) =
       (Some 0, snd (get_clan_points wed_noon ''Wolves'' stale_state))"
proof -
  have ws: "get_week_start wed_noon = 738906 * 86400000000"
    by (simp add: get_week_start_def weekday_def day_of_def us_per_day_def wed_noon_def)
  have ws2: "get_week_start wed_evening = get_week_start wed_noon"
    by (simp add: get_week_start_def weekday_def day_of_def us_per_day_def wed_noon_def
        wed_evening_def)
  have c: "clans stale_state ''Wolves'' = Some wolves"
    by (simp add: stale_state_def)
  have l: "last_week_start wolves = IsoText (738885 * 86400000000)"
    by (simp add: wolves_def)
  have lt: "738885 * 86400000000 < get_week_start wed_noon"
    by (simp add: ws)
  note r = get_clan_points_rollover_once [OF c l lt ws2]
  from r have a: "get_clan_points wed_noon ''Wolves'' stale_state =
      (Some 0,
       stale_state\<lparr>clans := (clans stale_state)(''Wolves'' \<mapsto>
         wolves\<lparr>last_week_points := points wolves, points := 0,
           last_week_start := IsoText (get_week_start wed_noon)\<rparr>)\<rparr>)"
    by (rule conjunct1)
  from r have b: "get_clan_points wed_evening ''Wolves''
         (snd (get_clan_points wed_noon ''Wolves'' stale_state)) =
       (Some 0, snd (get_clan_points wed_noon ''Wolves'' stale_state))"
    by blast
  have "fst (get_clan_points wed_noon ''Wolves'' stale_state) = Some 0"
    by (simp add: a)
  moreover have "clans (snd (get_clan_points wed_noon ''Wolves'' stale_state)) ''Wolves'' =
       Some \<lparr>points = 0, last_week_start = IsoText (738906 * 86400000000),
             last_week_points = 1200, max_points = 20000\<rparr>"
    by (simp add: a ws wolves_def)
  ultimately show ?thesis using b by blast
qed

text \<open>
  C10: when the stored \<open>last_week_start\<close> of a clan is empty or null, reading the clan's
  points never rolls the week over, whatever the time: the stored points are returned
  and the state, with \<open>last_week_points\<close> and \<open>last_week_start\<close>, stays as it was.
\<close>

theorem get_clan_points_unset_no_rollover:
  assumes "clans s clan = Some c"
      and "last_week_start c = EmptyText \<or> last_week_start c = SqlNull"
  shows "get_clan_points now clan s = (Some (points c), s)"
  using assms by (auto simp add: get_clan_points_def)

theorem get_clan_points_unset_no_rollover_witness:
  "get_clan_points wed_noon ''Foxes'' unset_state = (Some 1200, unset_state)"
proof -
  have c: "clans unset_state ''Foxes'' = Some foxes"
    by (simp add: unset_state_def)
  have l: "last_week_start foxes = EmptyText \<or> last_week_start foxes = SqlNull"
    by (simp add: foxes_def)
  from get_clan_points_unset_no_rollover [OF c l, of wed_noon]
  show ?thesis by (simp add: foxes_def)
qed

subsection \<open>What a read of the clan points touches\<close>

lemma gcp_fields:
  "users (snd (get_clan_points now clan s)) = users s"
  "logs (snd (get_clan_points now clan s)) = logs s"
  "achievements (snd (get_clan_points now clan s)) = achievements s"
  "shop (snd (get_clan_points now clan s)) = shop s"
  "bonus_role (snd (get_clan_points now clan s)) = bonus_role s"
  "channel_multipliers (snd (get_clan_points now clan s)) = channel_multipliers s"
  "seasonal_events (snd (get_clan_points now clan s)) = seasonal_events s"
  "last_message_time (snd (get_clan_points now clan s)) = last_message_time s"
  "user_daily_points (snd (get_clan_points now clan s)) = user_daily_points s"
  by (simp_all add: get_clan_points_def split: option.splits time_text.splits)

lemma gcp_other_clan:
  "clan' \<noteq> clan \<Longrightarrow> clans (snd (get_clan_points now clan s)) clan' = clans s clan'"
  by (simp add: get_clan_points_def split: option.splits time_text.splits)

lemma gcp_None:
  "fst (get_clan_points now clan s) = None \<Longrightarrow> snd (get_clan_points now clan s) = s"
  by (simp add: get_clan_points_def split: option.splits time_text.splits if_splits)

lemma gcp_Some:
  "fst (get_clan_points now clan s) = Some cur \<Longrightarrow>
     \<exists>d0 d. clans s clan = Some d0 \<and> clans (snd (get_clan_points now clan s)) clan = Some d
        \<and> points d = cur \<and> max_points d = max_points d0
        \<and> (cur = points d0 \<or> cur = 0)"
  by (auto simp add: get_clan_points_def split: option.splits time_text.splits if_splits)

lemma gcp_row:
  "clans s clan = Some d0 \<Longrightarrow>
     \<exists>d. clans (snd (get_clan_points now clan s)) clan = Some d
        \<and> max_points d = max_points d0 \<and> (points d = points d0 \<or> points d = 0)"
  by (auto simp add: get_clan_points_def split: option.splits time_text.splits if_splits)

lemma gcp_again:
  assumes "clans s' = clans (snd (get_clan_points now clan s))"
  shows "get_clan_points now clan s' = (fst (get_clan_points now clan s), s')"
  using assms
  by (auto simp add: get_clan_points_def split: option.splits time_text.splits if_splits)

subsection \<open>The gates of an award\<close>

lemma can_add_snd:
  "snd (can_add_to_clan now clan amt s) = snd (get_clan_points now clan s)"
  by (simp add: can_add_to_clan_def split: prod.splits option.splits)

lemma can_add_fst:
  "fst (can_add_to_clan now clan amt s) =
     (case fst (get_clan_points now clan s) of
        None \<Rightarrow> False
      | Some cur \<Rightarrow>
          (case clans (snd (get_clan_points now clan s)) clan of
             None \<Rightarrow> False
           | Some d \<Rightarrow> cur + amt \<le> max_points d))"
  by (simp add: can_add_to_clan_def split: prod.splits option.splits)

lemma can_add_True:
  assumes "fst (can_add_to_clan now clan amt s)"
  shows "\<exists>cur d. fst (get_clan_points now clan s) = Some cur
           \<and> clans (snd (get_clan_points now clan s)) clan = Some d
           \<and> points d = cur \<and> cur + amt \<le> max_points d"
  using assms gcp_Some [of now clan s]
  by (auto simp add: can_add_fst split: option.splits)

lemma cdl_fields:
  "clans (snd (check_daily_limit now u a s)) = clans s"
  "users (snd (check_daily_limit now u a s)) = users s"
  "logs (snd (check_daily_limit now u a s)) = logs s"
  "achievements (snd (check_daily_limit now u a s)) = achievements s"
  "shop (snd (check_daily_limit now u a s)) = shop s"
  "bonus_role (snd (check_daily_limit now u a s)) = bonus_role s"
  "channel_multipliers (snd (check_daily_limit now u a s)) = channel_multipliers s"
  "seasonal_events (snd (check_daily_limit now u a s)) = seasonal_events s"
  "last_message_time (snd (check_daily_limit now u a s)) = last_message_time s"
  by (simp_all add: check_daily_limit_def Let_def)

lemma cdl_today:
  assumes "user_daily_points s u = Some \<lparr>date = Some (day_of now), daily_points = p\<rparr>"
  shows "check_daily_limit now u a s = (p + a \<le> MAX_DAILY_POINTS, s)"
  using assms
  by (simp add: check_daily_limit_def daily_lookup_def Let_def map_upd_triv)

lemma ca_fields:
  "clans (snd (check_achievements now u s)) = clans s"
  "users (snd (check_achievements now u s)) = users s"
  "logs (snd (check_achievements now u s)) = logs s"
  "shop (snd (check_achievements now u s)) = shop s"
  "bonus_role (snd (check_achievements now u s)) = bonus_role s"
  "channel_multipliers (snd (check_achievements now u s)) = channel_multipliers s"
  "seasonal_events (snd (check_achievements now u s)) = seasonal_events s"
  "last_message_time (snd (check_achievements now u s)) = last_message_time s"
  "user_daily_points (snd (check_achievements now u s)) = user_daily_points s"
  by (simp_all add: check_achievements_def split: option.splits prod.splits)

text \<open>The effect of an award, by the outcome of its three gates.\<close>

lemma add_points_refused_cap:
  assumes "\<not> fst (can_add_to_clan now clan a s)"
  shows "add_points_to_clan_and_user now u clan a src ch s =
           (False, snd (get_clan_points now clan s))"
  using assms
  by (simp add: add_points_to_clan_and_user_def case_prod_beta can_add_snd)

lemma add_points_refused_daily:
  assumes "fst (can_add_to_clan now clan a s)"
      and "\<not> fst (check_daily_limit now u a (snd (get_clan_points now clan s)))"
  shows "add_points_to_clan_and_user now u clan a src ch s =
           (False, snd (check_daily_limit now u a (snd (get_clan_points now clan s))))"
  using assms
  by (simp add: add_points_to_clan_and_user_def case_prod_beta can_add_snd)

lemma add_points_accepted:
  assumes ok: "fst (can_add_to_clan now clan a s)"
      and ok2: "fst (check_daily_limit now u a (snd (get_clan_points now clan s)))"
  shows "fst (add_points_to_clan_and_user now u clan a src ch s)"
    and "clans (snd (add_points_to_clan_and_user now u clan a src ch s)) =
           (clans (snd (get_clan_points now clan s)))(clan \<mapsto>
              (the (clans (snd (get_clan_points now clan s)) clan))
                \<lparr>points := the (fst (get_clan_points now clan s)) + a\<rparr>)"
    and "users (snd (add_points_to_clan_and_user now u clan a src ch s)) =
           (users s)(u \<mapsto>
              (case users s u of
                 Some row \<Rightarrow> row\<lparr>user_points := user_points row + a,
                                  last_active := IsoText now\<rparr>
               | None \<Rightarrow> \<lparr>clan_name = Some clan, user_points = a, streak_days = 0,
                          last_active = IsoText now, join_date = IsoText now,
                          weekly_cap = 2000\<rparr>))"
    and "logs (snd (add_points_to_clan_and_user now u clan a src ch s)) =
           logs s @ [\<lparr>log_user_id = u, amount = a, source = src, timestamp = now,
                      log_channel_id = ch\<rparr>]"
    and "daily_lookup (snd (add_points_to_clan_and_user now u clan a src ch s)) u =
           \<lparr>date = Some (day_of now),
            daily_points =
              (if date (daily_lookup s u) = Some (day_of now)
               then daily_points (daily_lookup s u) else 0) + a\<rparr>"
proof -
  let ?s1 = "snd (get_clan_points now clan s)"
  let ?s2 = "snd (check_daily_limit now u a ?s1)"
  obtain cur d where cur: "fst (get_clan_points now clan s) = Some cur"
    and d: "clans ?s1 clan = Some d"
    using can_add_True [OF ok] by blast
  have again: "get_clan_points now clan ?s2 = (Some cur, ?s2)"
    using gcp_again [of ?s2 now clan s] cur by (simp add: cdl_fields)
  have d2: "clans ?s2 clan = Some d"
    using d by (simp add: cdl_fields)
  have unf: "add_points_to_clan_and_user now u clan a src ch s =
      (True, snd (check_achievements now u
         (?s2\<lparr>clans := (clans ?s2)(clan \<mapsto> d\<lparr>points := cur + a\<rparr>),
               users := (users ?s2)(u \<mapsto>
                 (case users ?s2 u of
                    Some row \<Rightarrow> row\<lparr>user_points := user_points row + a,
                                     last_active := IsoText now\<rparr>
                  | None \<Rightarrow> \<lparr>clan_name = Some clan, user_points = a, streak_days = 0,
                             last_active = IsoText now, join_date = IsoText now,
                             weekly_cap = 2000\<rparr>)),
               logs := logs ?s2 @ [\<lparr>log_user_id = u, amount = a, source = src,
                                    timestamp = now, log_channel_id = ch\<rparr>],
               user_daily_points := (user_daily_points ?s2)(u \<mapsto>
                 (daily_lookup ?s2 u)\<lparr>date := Some (day_of now),
                    daily_points := daily_points (daily_lookup ?s2 u) + a\<rparr>)\<rparr>)))"
    using ok ok2
    by (simp add: add_points_to_clan_and_user_def case_prod_beta can_add_snd again d2
        Let_def daily_lookup_def split: option.splits)
  show "fst (add_points_to_clan_and_user now u clan a src ch s)"
    by (simp add: unf)
  show "clans (snd (add_points_to_clan_and_user now u clan a src ch s)) =
           (clans ?s1)(clan \<mapsto> (the (clans ?s1 clan))
                \<lparr>points := the (fst (get_clan_points now clan s)) + a\<rparr>)"
    by (simp add: unf ca_fields cdl_fields d cur)
  show "users (snd (add_points_to_clan_and_user now u clan a src ch s)) =
           (users s)(u \<mapsto>
              (case users s u of
                 Some row \<Rightarrow> row\<lparr>user_points := user_points row + a,
                                  last_active := IsoText now\<rparr>
               | None \<Rightarrow> \<lparr>clan_name = Some clan, user_points = a, streak_days = 0,
                          last_active = IsoText now, join_date = IsoText now,
                          weekly_cap = 2000\<rparr>))"
    by (simp add: unf ca_fields cdl_fields gcp_fields)
  show "logs (snd (add_points_to_clan_and_user now u clan a src ch s)) =
           logs s @ [\<lparr>log_user_id = u, amount = a, source = src, timestamp = now,
                      log_channel_id = ch\<rparr>]"
    by (simp add: unf ca_fields cdl_fields gcp_fields)
  show "daily_lookup (snd (add_points_to_clan_and_user now u clan a src ch s)) u =
           \<lparr>date = Some (day_of now),
            daily_points =
              (if date (daily_lookup s u) = Some (day_of now)
               then daily_points (daily_lookup s u) else 0) + a\<rparr>"
    by (simp add: unf daily_lookup_def ca_fields check_daily_limit_def Let_def gcp_fields)
qed

subsection \<open>Clan cap\<close>

lemma gcp_cap_step:
  assumes "clans s cn = Some c" and "points c \<le> max_points c" and "0 \<le> max_points c"
  shows "\<exists>c'. clans (snd (get_clan_points now clan s)) cn = Some c'
           \<and> points c' \<le> max_points c' \<and> max_points c' = max_points c"
proof (cases "clan = cn")
  case True
  with gcp_row [of s cn c now] assms show ?thesis by auto
next
  case False
  with assms show ?thesis by (simp add: gcp_other_clan)
qed

lemma add_points_cap_step:
  assumes "clans s cn = Some c" and "points c \<le> max_points c" and "0 \<le> max_points c"
  shows "\<exists>c'. clans (snd (add_points_to_clan_and_user now u clan a src ch s)) cn = Some c'
           \<and> points c' \<le> max_points c' \<and> max_points c' = max_points c"
proof -
  let ?s1 = "snd (get_clan_points now clan s)"
  from gcp_cap_step [OF assms, of now clan]
  obtain c1 where c1: "clans ?s1 cn = Some c1" "points c1 \<le> max_points c1"
      "max_points c1 = max_points c"
    by blast
  show ?thesis
  proof (cases "fst (can_add_to_clan now clan a s)")
    case False
    then show ?thesis using c1 by (simp add: add_points_refused_cap)
  next
    case ok: True
    show ?thesis
    proof (cases "fst (check_daily_limit now u a ?s1)")
      case False
      then show ?thesis using c1 ok by (simp add: add_points_refused_daily cdl_fields)
    next
      case True
      from can_add_True [OF ok] obtain cur d where
        cur: "fst (get_clan_points now clan s) = Some cur" and
        d: "clans ?s1 clan = Some d" and le: "cur + a \<le> max_points d"
        by blast
      note acc = add_points_accepted(2) [OF ok True, of src ch]
      show ?thesis
      proof (cases "clan = cn")
        case same: True
        have "clans (snd (add_points_to_clan_and_user now u clan a src ch s)) clan =
                Some (d\<lparr>points := cur + a\<rparr>)"
          using d cur by (simp add: acc)
        moreover have "d = c1" using c1 d same by simp
        ultimately show ?thesis using same c1 le by simp
      next
        case False
        then have "clans (snd (add_points_to_clan_and_user now u clan a src ch s)) cn =
                clans ?s1 cn"
          by (simp add: acc)
        with c1 show ?thesis by simp
      qed
    qed
  qed
qed

text \<open>
  C6: for a clan whose stored points do not exceed its cap (a cap that is not negative,
  as every cap the bot sets is, and as it must be when the points are not negative),
  the stored points do not exceed the cap after any
  sequence of awards, whatever the users, clans, amounts and times of the calls. The
  statement covers every prefix of a sequence, a prefix being a sequence itself. The cap
  itself is never changed by an award.
\<close>

theorem clan_cap_invariant:
  assumes "clans s cn = Some c"
      and "points c \<le> max_points c"
      and "0 \<le> max_points c"
  shows "\<exists>c'. clans (run_awards calls s) cn = Some c'
           \<and> points c' \<le> max_points c' \<and> max_points c' = max_points c"
  using assms
proof (induction calls arbitrary: s c)
  case Nil
  then show ?case by simp
next
  case (Cons x xs)
  from add_points_cap_step [OF Cons.prems, of "call_now x" "call_user x" "call_clan x"
      "call_amount x" "call_source x" "call_channel x"]
  obtain c1 where c1:
    "clans (snd (add_points_to_clan_and_user (call_now x) (call_user x) (call_clan x)
        (call_amount x) (call_source x) (call_channel x) s)) cn = Some c1"
    "points c1 \<le> max_points c1" "max_points c1 = max_points c"
    by blast
  from Cons.IH [OF c1(1) c1(2)] c1(3) Cons.prems(3) show ?case by simp
qed

theorem clan_cap_invariant_witness:
  "points wolves \<le> max_points wolves \<and>
   (\<exists>c'. clans (run_awards demo_calls stale_state) ''Wolves'' = Some c'
      \<and> points c' \<le> max_points c' \<and> max_points c' = 20000)"
proof -
  have c: "clans stale_state ''Wolves'' = Some wolves"
    by (simp add: stale_state_def)
  have le: "points wolves \<le> max_points wolves" and nn: "0 \<le> max_points wolves"
    by (simp_all add: wolves_def)
  from clan_cap_invariant [OF c le nn, of demo_calls] le
  show ?thesis by (simp add: wolves_def)
qed

subsection \<open>Daily budget\<close>

lemma daily_gate_iff:
  assumes d: "user_daily_points s u = Some \<lparr>date = Some (day_of now), daily_points = p\<rparr>"
      and ok: "fst (can_add_to_clan now clan a s)"
  shows "fst (add_points_to_clan_and_user now u clan a src ch s) = (p + a \<le> 500)"
proof -
  let ?s1 = "snd (get_clan_points now clan s)"
  have d1: "user_daily_points ?s1 u = Some \<lparr>date = Some (day_of now), daily_points = p\<rparr>"
    using d by (simp add: gcp_fields)
  have gate: "check_daily_limit now u a ?s1 = (p + a \<le> 500, ?s1)"
    using cdl_today [OF d1] by (simp add: MAX_DAILY_POINTS_def)
  show ?thesis
  proof (cases "p + a \<le> 500")
    case True
    then have "fst (check_daily_limit now u a ?s1)" by (simp add: gate)
    from add_points_accepted(1) [OF ok this] True show ?thesis by simp
  next
    case False
    then have "\<not> fst (check_daily_limit now u a ?s1)" by (simp add: gate)
    from add_points_refused_daily [OF ok this] False show ?thesis by simp
  qed
qed

lemma daily_refusal_keeps_state:
  assumes d: "user_daily_points s u = Some \<lparr>date = Some (day_of now), daily_points = p\<rparr>"
      and over: "\<not> p + a \<le> 500"
  shows "\<not> fst (add_points_to_clan_and_user now u clan a src ch s)"
    and "user_daily_points (snd (add_points_to_clan_and_user now u clan a src ch s)) =
           user_daily_points s"
    and "add_points_to_clan_and_user now u clan a src ch s =
           (False, snd (get_clan_points now clan s))"
proof -
  let ?s1 = "snd (get_clan_points now clan s)"
  have d1: "user_daily_points ?s1 u = Some \<lparr>date = Some (day_of now), daily_points = p\<rparr>"
    using d by (simp add: gcp_fields)
  have gate: "check_daily_limit now u a ?s1 = (False, ?s1)"
    using cdl_today [OF d1] over by (simp add: MAX_DAILY_POINTS_def)
  have r: "add_points_to_clan_and_user now u clan a src ch s = (False, ?s1)"
  proof (cases "fst (can_add_to_clan now clan a s)")
    case True
    have "\<not> fst (check_daily_limit now u a ?s1)" by (simp add: gate)
    from add_points_refused_daily [OF True this] show ?thesis by (simp add: gate)
  next
    case False
    then show ?thesis by (rule add_points_refused_cap)
  qed
  show "\<not> fst (add_points_to_clan_and_user now u clan a src ch s)"
    by (simp add: r)
  show "user_daily_points (snd (add_points_to_clan_and_user now u clan a src ch s)) =
           user_daily_points s"
    by (simp add: r gcp_fields)
  show "add_points_to_clan_and_user now u clan a src ch s = (False, ?s1)"
    by (rule r)
qed

lemma daily_accept_reserves:
  assumes d: "user_daily_points s u = Some \<lparr>date = Some (day_of now), daily_points = p\<rparr>"
      and ok: "fst (can_add_to_clan now clan a s)"
      and le: "p + a \<le> 500"
  shows "daily_lookup (snd (add_points_to_clan_and_user now u clan a src ch s)) u =
           \<lparr>date = Some (day_of now), daily_points = p + a\<rparr>"
proof -
  let ?s1 = "snd (get_clan_points now clan s)"
  have d1: "user_daily_points ?s1 u = Some \<lparr>date = Some (day_of now), daily_points = p\<rparr>"
    using d by (simp add: gcp_fields)
  have "fst (check_daily_limit now u a ?s1)"
    using cdl_today [OF d1] le by (simp add: MAX_DAILY_POINTS_def)
  from add_points_accepted(5) [OF ok this] d show ?thesis
    by (simp add: daily_lookup_def)
qed

lemma cdl_fst:
  "fst (check_daily_limit now u a s) = (awarded_today now s u + a \<le> 500)"
  by (simp add: check_daily_limit_def awarded_today_def MAX_DAILY_POINTS_def Let_def)

lemma add_points_fst:
  assumes "fst (can_add_to_clan now clan a s)"
  shows "fst (add_points_to_clan_and_user now u clan a src ch s) =
           (awarded_today now s u + a \<le> 500)"
proof -
  let ?s1 = "snd (get_clan_points now clan s)"
  have t: "awarded_today now ?s1 u = awarded_today now s u"
    by (simp add: awarded_today_def daily_lookup_def gcp_fields)
  show ?thesis
  proof (cases "fst (check_daily_limit now u a ?s1)")
    case True
    from add_points_accepted(1) [OF assms True, of src ch] True show ?thesis
      by (simp add: cdl_fst t)
  next
    case False
    from add_points_refused_daily [OF assms False, of src ch] False show ?thesis
      by (simp add: cdl_fst t)
  qed
qed

lemma awarded_today_after_read:
  "awarded_today now (snd (get_clan_points now2 clan s)) u = awarded_today now s u"
  by (simp add: awarded_today_def daily_lookup_def gcp_fields)

lemma awarded_today_entry:
  assumes "awarded_today now s u = p" and "p \<noteq> 0"
  shows "user_daily_points s u = Some \<lparr>date = Some (day_of now), daily_points = p\<rparr>"
proof (cases "user_daily_points s u")
  case None
  with assms show ?thesis by (simp add: awarded_today_def daily_lookup_def)
next
  case (Some d)
  with assms have "date d = Some (day_of now)" and "daily_points d = p"
    by (simp_all add: awarded_today_def daily_lookup_def split: if_splits)
  then have "d = \<lparr>date = Some (day_of now), daily_points = p\<rparr>"
    by (cases d) simp
  with Some show ?thesis by simp
qed

lemma add_points_reserves:
  assumes ok: "fst (can_add_to_clan now clan a s)"
      and le: "awarded_today now s u + a \<le> 500"
  shows "awarded_today now (snd (add_points_to_clan_and_user now u clan a src ch s)) u =
           awarded_today now s u + a"
proof -
  let ?s1 = "snd (get_clan_points now clan s)"
  have "fst (check_daily_limit now u a ?s1)"
    using le by (simp add: cdl_fst awarded_today_after_read)
  from add_points_accepted(5) [OF ok this, of src ch] show ?thesis
    by (simp add: awarded_today_def)
qed

text \<open>
  C7: the daily cap is 500. For a user who has been awarded 300 points on the current
  day, an award of 300 is refused and leaves the daily tracking as it was; an award of
  200 that follows on the same day, the clan cap permitting, is accepted and brings the
  day's total to 500. The comparison is inclusive, for every user and every state of
  the tracking: with \<open>awarded_today\<close> the points awarded on the day of the call (those
  of an entry dated that day, 0 for an older entry or none), an award of \<open>a\<close> that the
  clan cap permits is accepted exactly when \<open>awarded_today + a \<le> 500\<close>, and an accepted
  award adds \<open>a\<close> to the points awarded that day.
\<close>

theorem daily_budget_inclusive:
  assumes d: "awarded_today now s u = 300"
      and same_day: "day_of now2 = day_of now"
      and cap: "fst (can_add_to_clan now2 clan2 200
                       (snd (add_points_to_clan_and_user now u clan 300 src ch s)))"
  shows "\<not> fst (add_points_to_clan_and_user now u clan 300 src ch s)
       \<and> user_daily_points (snd (add_points_to_clan_and_user now u clan 300 src ch s)) =
           user_daily_points s
       \<and> fst (add_points_to_clan_and_user now2 u clan2 200 src2 ch2
                 (snd (add_points_to_clan_and_user now u clan 300 src ch s)))
       \<and> daily_lookup
             (snd (add_points_to_clan_and_user now2 u clan2 200 src2 ch2
                     (snd (add_points_to_clan_and_user now u clan 300 src ch s)))) u =
           \<lparr>date = Some (day_of now), daily_points = 500\<rparr>
       \<and> MAX_DAILY_POINTS = 500
       \<and> (\<forall>now' s' u' clan' a src' ch'.
             fst (can_add_to_clan now' clan' a s') \<longrightarrow>
               fst (add_points_to_clan_and_user now' u' clan' a src' ch' s') =
                 (awarded_today now' s' u' + a \<le> 500)
               \<and> (fst (add_points_to_clan_and_user now' u' clan' a src' ch' s') \<longrightarrow>
                    awarded_today now'
                      (snd (add_points_to_clan_and_user now' u' clan' a src' ch' s')) u' =
                      awarded_today now' s' u' + a))"
proof -
  let ?s1 = "snd (add_points_to_clan_and_user now u clan 300 src ch s)"
  have e: "user_daily_points s u = Some \<lparr>date = Some (day_of now), daily_points = 300\<rparr>"
    using awarded_today_entry [OF d] by simp
  have over: "\<not> (300::int) + 300 \<le> 500" by simp
  note first = daily_refusal_keeps_state [OF e over, of clan src ch]
  have d1: "user_daily_points ?s1 u = Some \<lparr>date = Some (day_of now2), daily_points = 300\<rparr>"
    using e same_day by (simp add: first(2))
  have le: "(300::int) + 200 \<le> 500" by simp
  have acc: "fst (add_points_to_clan_and_user now2 u clan2 200 src2 ch2 ?s1)"
    using daily_gate_iff [OF d1 cap, of src2 ch2] by simp
  have res: "daily_lookup (snd (add_points_to_clan_and_user now2 u clan2 200 src2 ch2 ?s1)) u =
           \<lparr>date = Some (day_of now), daily_points = 500\<rparr>"
    using daily_accept_reserves [OF d1 cap le, of src2 ch2] same_day by simp
  have gen: "\<forall>now' s' u' clan' a src' ch'.
             fst (can_add_to_clan now' clan' a s') \<longrightarrow>
               fst (add_points_to_clan_and_user now' u' clan' a src' ch' s') =
                 (awarded_today now' s' u' + a \<le> 500)
               \<and> (fst (add_points_to_clan_and_user now' u' clan' a src' ch' s') \<longrightarrow>
                    awarded_today now'
                      (snd (add_points_to_clan_and_user now' u' clan' a src' ch' s')) u' =
                      awarded_today now' s' u' + a)"
    using add_points_fst add_points_reserves by blast
  from first(1,2) acc res gen show ?thesis
    by (simp only: MAX_DAILY_POINTS_def simp_thms)
qed

theorem daily_budget_inclusive_witness:
  "\<not> fst (add_points_to_clan_and_user wed_noon 1 ''Wolves'' 300 ''message'' (Some 7)
            budget_state)
   \<and> fst (add_points_to_clan_and_user wed_evening 1 ''Wolves'' 200 ''message'' (Some 7)
            (snd (add_points_to_clan_and_user wed_noon 1 ''Wolves'' 300 ''message'' (Some 7)
                    budget_state)))
   \<and> fst (add_points_to_clan_and_user thu_noon 1 ''Wolves'' 500 ''message'' (Some 7)
            budget_state)
   \<and> \<not> fst (add_points_to_clan_and_user thu_noon 1 ''Wolves'' 501 ''message'' (Some 7)
              budget_state)
   \<and> fst (add_points_to_clan_and_user wed_noon 2 ''Wolves'' 500 ''message'' (Some 7)
            budget_state)"
proof -
  have day: "day_of wed_noon = 738908" "day_of wed_evening = 738908"
      "day_of thu_noon = 738909"
    by (simp_all add: day_of_def us_per_day_def wed_noon_def wed_evening_def thu_noon_def)
  have ws: "get_week_start wed_noon = 738906 * 86400000000"
      "get_week_start wed_evening = 738906 * 86400000000"
      "get_week_start thu_noon = 738906 * 86400000000"
    by (simp_all add: get_week_start_def weekday_def day us_per_day_def)
  have d: "awarded_today wed_noon budget_state 1 = 300"
    by (simp add: awarded_today_def daily_lookup_def budget_state_def day)
  have stale: "awarded_today thu_noon budget_state 1 = 0"
    by (simp add: awarded_today_def daily_lookup_def budget_state_def day)
  have fresh: "awarded_today wed_noon budget_state 2 = 0"
    by (simp add: awarded_today_def daily_lookup_def budget_state_def empty_state_def)
  have same_day: "day_of wed_evening = day_of wed_noon"
    by (simp add: day)
  have keep: "snd (get_clan_points wed_noon ''Wolves'' budget_state) = budget_state"
    by (simp add: get_clan_points_def budget_state_def ws)
  have e: "user_daily_points budget_state 1 =
             Some \<lparr>date = Some (day_of wed_noon), daily_points = 300\<rparr>"
    by (simp add: budget_state_def day)
  have over: "\<not> (300::int) + 300 \<le> 500" by simp
  have first: "snd (add_points_to_clan_and_user wed_noon 1 ''Wolves'' 300 ''message'' (Some 7)
                      budget_state) = budget_state"
    using daily_refusal_keeps_state(3) [OF e over, of "''Wolves''" "''message''" "Some 7"]
    by (simp add: keep)
  have cap: "fst (can_add_to_clan wed_evening ''Wolves'' 200
                    (snd (add_points_to_clan_and_user wed_noon 1 ''Wolves'' 300 ''message''
                            (Some 7) budget_state)))"
    unfolding first
    by (simp add: can_add_to_clan_def get_clan_points_def budget_state_def ws)
  have caps: "fst (can_add_to_clan thu_noon ''Wolves'' 500 budget_state)"
      "fst (can_add_to_clan thu_noon ''Wolves'' 501 budget_state)"
      "fst (can_add_to_clan wed_noon ''Wolves'' 500 budget_state)"
    by (simp_all add: can_add_to_clan_def get_clan_points_def budget_state_def ws)
  note t = daily_budget_inclusive [OF d same_day cap, of "''message''" "Some 7"]
  from t have scenario:
    "\<not> fst (add_points_to_clan_and_user wed_noon 1 ''Wolves'' 300 ''message'' (Some 7)
            budget_state)"
    "fst (add_points_to_clan_and_user wed_evening 1 ''Wolves'' 200 ''message'' (Some 7)
            (snd (add_points_to_clan_and_user wed_noon 1 ''Wolves'' 300 ''message'' (Some 7)
                    budget_state)))"
    by blast+
  from t have gen: "\<And>now' s' u' clan' a src' ch'.
      fst (can_add_to_clan now' clan' a s') \<Longrightarrow>
        fst (add_points_to_clan_and_user now' u' clan' a src' ch' s') =
          (awarded_today now' s' u' + a \<le> 500)"
    by blast
  from gen [OF caps(1), of 1 "''message''" "Some 7"] stale
  have a: "fst (add_points_to_clan_and_user thu_noon 1 ''Wolves'' 500 ''message'' (Some 7)
            budget_state)"
    by simp
  from gen [OF caps(2), of 1 "''message''" "Some 7"] stale
  have b: "\<not> fst (add_points_to_clan_and_user thu_noon 1 ''Wolves'' 501 ''message'' (Some 7)
              budget_state)"
    by simp
  from gen [OF caps(3), of 2 "''message''" "Some 7"] fresh
  have c: "fst (add_points_to_clan_and_user wed_noon 2 ''Wolves'' 500 ''message'' (Some 7)
            budget_state)"
    by simp
  from scenario a b c show ?thesis by blast
qed

subsection \<open>Administrative removal\<close>

lemma guc_fields:
  "clans (snd (get_user_clan now u g s)) = clans s"
  "logs (snd (get_user_clan now u g s)) = logs s"
  "achievements (snd (get_user_clan now u g s)) = achievements s"
  "shop (snd (get_user_clan now u g s)) = shop s"
  "bonus_role (snd (get_user_clan now u g s)) = bonus_role s"
  "channel_multipliers (snd (get_user_clan now u g s)) = channel_multipliers s"
  "seasonal_events (snd (get_user_clan now u g s)) = seasonal_events s"
  "last_message_time (snd (get_user_clan now u g s)) = last_message_time s"
  "user_daily_points (snd (get_user_clan now u g s)) = user_daily_points s"
  by (simp_all add: get_user_clan_def Let_def split: option.splits)

lemma guc_user_points:
  assumes "users s u = Some r"
  shows "\<exists>r'. users (snd (get_user_clan now u g s)) u = Some r'
           \<and> user_points r' = user_points r"
  using assms by (simp add: get_user_clan_def Let_def split: option.splits)

lemma guc_other_user:
  "u' \<noteq> u \<Longrightarrow> users (snd (get_user_clan now u g s)) u' = users s u'"
  by (simp add: get_user_clan_def Let_def split: option.splits)

lemma guc_stored_points:
  "stored_points (snd (get_user_clan now u g s)) u' = stored_points s u'"
  by (simp add: get_user_clan_def stored_points_def Let_def split: option.splits)

lemma gcp_locked_snd: "snd (get_clan_points_locked now clan s) = s"
  by (simp add: get_clan_points_locked_def split: option.splits time_text.splits)

lemma removepoints_overdraw:
  assumes "users s u = Some r" and "user_points r < amt"
  shows "fst (removepoints now g ch u amt s) \<noteq> Removed"
    and "clans (snd (removepoints now g ch u amt s)) = clans s"
    and "logs (snd (removepoints now g ch u amt s)) = logs s"
    and "\<exists>r'. users (snd (removepoints now g ch u amt s)) u = Some r'
           \<and> user_points r' = user_points r"
    and "snd (removepoints now g ch u amt s) = s
         \<or> snd (removepoints now g ch u amt s) = snd (get_user_clan now u g s)"
proof -
  from guc_user_points [OF assms(1), of now g]
  obtain r1 where r1: "users (snd (get_user_clan now u g s)) u = Some r1"
    "user_points r1 = user_points r" by blast
  have rej: "removepoints now g ch u amt s = (AmountNotPositive, s)
      \<or> removepoints now g ch u amt s = (AmountTooLarge, s)
      \<or> removepoints now g ch u amt s = (NotInClan, snd (get_user_clan now u g s))
      \<or> removepoints now g ch u amt s =
          (OnlyHas (user_points r), snd (get_user_clan now u g s))"
    using r1 assms(2)
    by (simp add: removepoints_def case_prod_beta Let_def split: option.splits)
  from rej show "fst (removepoints now g ch u amt s) \<noteq> Removed" by auto
  from rej show "clans (snd (removepoints now g ch u amt s)) = clans s"
    by (auto simp add: guc_fields)
  from rej show "logs (snd (removepoints now g ch u amt s)) = logs s"
    by (auto simp add: guc_fields)
  from rej r1 assms(1) show "\<exists>r'. users (snd (removepoints now g ch u amt s)) u = Some r'
           \<and> user_points r' = user_points r"
    by auto
  from rej show "snd (removepoints now g ch u amt s) = s
         \<or> snd (removepoints now g ch u amt s) = snd (get_user_clan now u g s)"
    by auto
qed

lemma removepoints_nonneg:
  assumes "users s u = Some r" and "0 \<le> user_points r"
  shows "\<exists>r'. users (snd (removepoints now g ch u a s)) u = Some r' \<and> 0 \<le> user_points r'"
proof -
  from guc_user_points [OF assms(1), of now g]
  obtain r1 where r1: "users (snd (get_user_clan now u g s)) u = Some r1"
    "user_points r1 = user_points r" by blast
  show ?thesis
    using r1 assms
    by (simp add: removepoints_def case_prod_beta Let_def gcp_locked_snd
        split: option.splits)
qed

text \<open>
  A removal from a clan whose week is over: the rollover cannot be written under the
  pending update, the handler reports an error and nothing is changed.
\<close>

lemma removepoints_stale_week:
  "removepoints wed_noon None 7 1 100 stale_member_state = (ErrorOccurred, stale_member_state)"
proof -
  have ws: "get_week_start wed_noon = 738906 * 86400000000"
    by (simp add: get_week_start_def weekday_def day_of_def us_per_day_def wed_noon_def)
  show ?thesis
    by (simp add: removepoints_def get_user_clan_def get_clan_points_locked_def
        stale_member_state_def stale_state_def empty_state_def wolves_def ws)
qed

text \<open>
  C9: an administrative removal of more points than the user has stored is rejected
  before any write of points: the reply is not the success reply, and the user's stored
  points, the clans table and the point log are as before. The state is the one the
  command found or the one the lookup of the user's clan left, which differs at most in
  the clan assigned to the user. A removal of any amount leaves stored points that were
  not negative not negative.
\<close>

theorem removepoints_rejects_overdraw:
  assumes "users s u = Some r"
      and "user_points r < amt"
  shows "fst (removepoints now g ch u amt s) \<noteq> Removed
       \<and> clans (snd (removepoints now g ch u amt s)) = clans s
       \<and> logs (snd (removepoints now g ch u amt s)) = logs s
       \<and> (\<exists>r'. users (snd (removepoints now g ch u amt s)) u = Some r'
              \<and> user_points r' = user_points r)
       \<and> (snd (removepoints now g ch u amt s) = s
            \<or> snd (removepoints now g ch u amt s) = snd (get_user_clan now u g s))
       \<and> (0 \<le> user_points r \<longrightarrow>
            (\<exists>r'. users (snd (removepoints now g ch u a s)) u = Some r'
               \<and> 0 \<le> user_points r'))"
  using removepoints_overdraw [OF assms, of now g ch]
    removepoints_nonneg [OF assms(1), of now g ch a]
  by blast

theorem removepoints_rejects_overdraw_witness:
  "fst (removepoints wed_noon None 7 1 400 budget_state) \<noteq> Removed
   \<and> clans (snd (removepoints wed_noon None 7 1 400 budget_state)) = clans budget_state
   \<and> logs (snd (removepoints wed_noon None 7 1 400 budget_state)) = logs budget_state
   \<and> (\<exists>r'. users (snd (removepoints wed_noon None 7 1 400 budget_state)) 1 = Some r'
          \<and> user_points r' = 300)
   \<and> (\<exists>r'. users (snd (removepoints wed_noon None 7 1 250 budget_state)) 1 = Some r'
          \<and> 0 \<le> user_points r')"
proof -
  let ?r = "\<lparr>clan_name = Some ''Wolves'', user_points = 300, streak_days = 0,
           last_active = IsoText (738908 * 86400000000),
           join_date = IsoText (738908 * 86400000000), weekly_cap = 2000\<rparr>"
  have u: "users budget_state 1 = Some ?r"
    by (simp add: budget_state_def)
  have lt: "user_points ?r < 400" by simp
  from removepoints_rejects_overdraw [OF u lt, of wed_noon None 7 250]
  show ?thesis by simp
qed

subsection \<open>Achievements\<close>

lemma loop_names:
  "snd (achievements_loop now u pts ms tbl acc) =
     acc @ map milestone_name (filter (\<lambda>m. m \<le> pts) ms)"
  by (induction ms arbitrary: tbl acc) (simp_all add: Let_def)

lemma insert_or_ignore_keys:
  "set (map ach_key (insert_or_ignore r tbl)) = insert (ach_key r) (set (map ach_key tbl))"
  by (auto simp add: insert_or_ignore_def)

lemma insert_or_ignore_distinct:
  "distinct (map ach_key tbl) \<Longrightarrow> distinct (map ach_key (insert_or_ignore r tbl))"
  by (simp add: insert_or_ignore_def)

lemma insert_or_ignore_present:
  "ach_key r \<in> set (map ach_key tbl) \<Longrightarrow> insert_or_ignore r tbl = tbl"
  by (simp add: insert_or_ignore_def)

lemma ach_key_row:
  "ach_key \<lparr>ach_user_id = u, achievement_name = n, earned_date = d\<rparr> = (u, n)"
  by (simp add: ach_key_def)

lemma loop_keys:
  "set (map ach_key (fst (achievements_loop now u pts ms tbl acc))) =
     set (map ach_key tbl) \<union> (\<lambda>m. (u, milestone_name m)) ` {m \<in> set ms. m \<le> pts}"
proof (induction ms arbitrary: tbl acc)
  case Nil
  then show ?case by simp
next
  case (Cons m ms)
  show ?case
  proof (cases "m \<le> pts")
    case True
    have "set (map ach_key (fst (achievements_loop now u pts (m # ms) tbl acc))) =
        insert (u, milestone_name m) (set (map ach_key tbl))
          \<union> (\<lambda>m. (u, milestone_name m)) ` {m \<in> set ms. m \<le> pts}"
      using True
      by (simp only: achievements_loop.simps if_True Let_def Cons.IH insert_or_ignore_keys
          ach_key_row)
    also have "\<dots> = set (map ach_key tbl)
          \<union> (\<lambda>k. (u, milestone_name k)) ` {k \<in> set (m # ms). k \<le> pts}"
      using True by auto
    finally show ?thesis .
  next
    case False
    have "set (map ach_key (fst (achievements_loop now u pts (m # ms) tbl acc))) =
        set (map ach_key tbl) \<union> (\<lambda>m. (u, milestone_name m)) ` {m \<in> set ms. m \<le> pts}"
      using False by (simp only: achievements_loop.simps if_False Cons.IH)
    also have "\<dots> = set (map ach_key tbl)
          \<union> (\<lambda>k. (u, milestone_name k)) ` {k \<in> set (m # ms). k \<le> pts}"
      using False by auto
    finally show ?thesis .
  qed
qed

lemma loop_distinct:
  "distinct (map ach_key tbl) \<Longrightarrow>
     distinct (map ach_key (fst (achievements_loop now u pts ms tbl acc)))"
  by (induction ms arbitrary: tbl acc) (simp_all add: Let_def insert_or_ignore_distinct)

lemma loop_saturated:
  assumes "(\<lambda>m. (u, milestone_name m)) ` {m \<in> set ms. m \<le> pts} \<subseteq> set (map ach_key tbl)"
  shows "fst (achievements_loop now u pts ms tbl acc) = tbl"
  using assms
proof (induction ms arbitrary: acc)
  case Nil
  then show ?case by simp
next
  case (Cons m ms)
  show ?case
  proof (cases "m \<le> pts")
    case True
    with Cons.prems have "(u, milestone_name m) \<in> set (map ach_key tbl)" by auto
    then have "insert_or_ignore
        \<lparr>ach_user_id = u, achievement_name = milestone_name m, earned_date = now\<rparr> tbl = tbl"
      by (simp only: insert_or_ignore_present ach_key_row)
    moreover from Cons.prems
    have "(\<lambda>m. (u, milestone_name m)) ` {m \<in> set ms. m \<le> pts} \<subseteq> set (map ach_key tbl)"
      by auto
    ultimately show ?thesis using True by (simp add: Let_def Cons.IH)
  next
    case False
    from Cons.prems
    have "(\<lambda>m. (u, milestone_name m)) ` {m \<in> set ms. m \<le> pts} \<subseteq> set (map ach_key tbl)"
      by auto
    with False show ?thesis by (simp add: Cons.IH)
  qed
qed

lemma ca_result:
  "fst (check_achievements now u s) =
     map_option (\<lambda>row. map milestone_name (filter (\<lambda>m. m \<le> user_points row) milestones))
       (users s u)"
  by (simp add: check_achievements_def case_prod_beta loop_names split: option.splits)

lemma ca_again:
  "snd (check_achievements now2 u (snd (check_achievements now u s))) =
     snd (check_achievements now u s)"
proof (cases "users s u")
  case None
  then show ?thesis by (simp add: check_achievements_def)
next
  case (Some row)
  let ?tbl = "fst (achievements_loop now u (user_points row) milestones (achievements s) [])"
  have s1: "snd (check_achievements now u s) = s\<lparr>achievements := ?tbl\<rparr>"
    using Some by (simp add: check_achievements_def case_prod_beta)
  have sat: "(\<lambda>m. (u, milestone_name m)) ` {m \<in> set milestones. m \<le> user_points row}
               \<subseteq> set (map ach_key ?tbl)"
    by (simp only: loop_keys) blast
  have "fst (achievements_loop now2 u (user_points row) milestones ?tbl []) = ?tbl"
    by (rule loop_saturated [OF sat])
  then show ?thesis
    using Some by (simp add: s1 check_achievements_def case_prod_beta)
qed

lemma ca_distinct:
  "distinct (map ach_key (achievements s)) \<Longrightarrow>
     distinct (map ach_key (achievements (snd (check_achievements now u s))))"
  by (simp add: check_achievements_def case_prod_beta loop_distinct split: option.splits)

text \<open>
  C3, as stated, fails: for a user with 300 points the second of two calls in a row
  returns the name of the milestone 100 again, not an empty list.
\<close>

theorem check_achievements_second_call_counterexample:
  "fst (check_achievements wed_evening 1 (snd (check_achievements wed_noon 1 budget_state))) =
     Some [''Reached 100 Points'']
   \<and> fst (check_achievements wed_evening 1 (snd (check_achievements wed_noon 1 budget_state)))
       \<noteq> Some []"
proof -
  have "fst (check_achievements wed_evening 1
               (snd (check_achievements wed_noon 1 budget_state))) =
          Some [''Reached 100 Points'']"
    by (simp add: ca_result ca_fields budget_state_def milestones_def milestone_name_def
        str_int_def str_nat.simps)
  then show ?thesis by simp
qed

text \<open>
  C3, amended: for every user, the second of two calls of the evaluator in a row, with
  no change to the user's points in between, returns the same list as the first, namely
  the names of all milestones at or below the user's points (nothing for a user without
  a row), and leaves the state, with the stored achievements, as the first call left it.
  No call creates a second record for a pair of user id and achievement name.
\<close>

theorem check_achievements_repeat:
  "fst (check_achievements now2 u (snd (check_achievements now u s))) =
     fst (check_achievements now u s)
   \<and> fst (check_achievements now u s) =
       map_option (\<lambda>row. map milestone_name (filter (\<lambda>m. m \<le> user_points row) milestones))
         (users s u)
   \<and> snd (check_achievements now2 u (snd (check_achievements now u s))) =
       snd (check_achievements now u s)
   \<and> (distinct (map ach_key (achievements s)) \<longrightarrow>
        distinct (map ach_key (achievements (snd (check_achievements now u s)))))"
  using ca_distinct [of s now u]
  by (simp only: ca_result ca_fields ca_again simp_thms) blast

theorem check_achievements_repeat_witness:
  "fst (check_achievements wed_noon 1 budget_state) = Some [''Reached 100 Points'']
   \<and> snd (check_achievements wed_evening 1 (snd (check_achievements wed_noon 1 budget_state))) =
       snd (check_achievements wed_noon 1 budget_state)
   \<and> distinct (map ach_key (achievements (snd (check_achievements wed_noon 1 budget_state))))"
proof -
  have d: "distinct (map ach_key (achievements budget_state))"
    by (simp add: budget_state_def empty_state_def)
  have n: "map_option
             (\<lambda>row. map milestone_name (filter (\<lambda>m. m \<le> user_points row) milestones))
             (users budget_state 1) = Some [''Reached 100 Points'']"
    by (simp add: budget_state_def milestones_def milestone_name_def str_int_def str_nat.simps)
  from check_achievements_repeat [of wed_evening 1 wed_noon budget_state] d n
  show ?thesis by simp
qed

subsection \<open>Message awards\<close>

lemma irl_fields:
  "clans (snd (is_rate_limited t u s)) = clans s"
  "users (snd (is_rate_limited t u s)) = users s"
  "logs (snd (is_rate_limited t u s)) = logs s"
  "achievements (snd (is_rate_limited t u s)) = achievements s"
  "shop (snd (is_rate_limited t u s)) = shop s"
  "bonus_role (snd (is_rate_limited t u s)) = bonus_role s"
  "channel_multipliers (snd (is_rate_limited t u s)) = channel_multipliers s"
  "seasonal_events (snd (is_rate_limited t u s)) = seasonal_events s"
  "user_daily_points (snd (is_rate_limited t u s)) = user_daily_points s"
  by (simp_all add: is_rate_limited_def Let_def)

lemma on_message_awarded_eq:
  assumes "fst (on_message t now msg s) = Awarded a m"
  shows "a = message_amount
               (case bonus_role s of
                  None \<Rightarrow> False
                | Some b \<Rightarrow> b \<noteq> [] \<and> b \<in> set (map role_name (author_roles msg)))
               now (content msg)"
  using assms
  by (simp add: on_message_def case_prod_beta Let_def guc_fields irl_fields
      split: if_splits option.splits)

lemma on_message_awarded:
  assumes "awarded_amount (fst (on_message t now msg s)) \<noteq> None"
  shows "awarded_amount (fst (on_message t now msg s)) =
           Some (message_amount
                   (case bonus_role s of
                      None \<Rightarrow> False
                    | Some b \<Rightarrow> b \<noteq> [] \<and> b \<in> set (map role_name (author_roles msg)))
                   now (content msg))"
proof (cases "fst (on_message t now msg s)")
  case (Awarded a m)
  from on_message_awarded_eq [OF this] Awarded show ?thesis by simp
qed (use assms in simp_all)

lemma add_points_unfold:
  "add_points_to_clan_and_user now u clan a src ch s =
     (if \<not> fst (can_add_to_clan now clan a s) then (False, snd (can_add_to_clan now clan a s))
      else if \<not> fst (check_daily_limit now u a (snd (can_add_to_clan now clan a s)))
      then (False, snd (check_daily_limit now u a (snd (can_add_to_clan now clan a s))))
      else
        (case fst (get_clan_points now clan
                     (snd (check_daily_limit now u a (snd (can_add_to_clan now clan a s))))) of
           None \<Rightarrow>
             (False,
              snd (get_clan_points now clan
                     (snd (check_daily_limit now u a (snd (can_add_to_clan now clan a s))))))
         | Some cur \<Rightarrow>
             (True,
              snd (check_achievements now u
                     (award_writes now u clan a src ch cur
                        (snd (get_clan_points now clan
                                (snd (check_daily_limit now u a
                                        (snd (can_add_to_clan now clan a s)))))))))))"
  by (simp add: add_points_to_clan_and_user_def award_writes_def case_prod_beta Let_def
      split: option.splits)


text \<open>
  No function on the path of an award reads the multiplier tables: run on a state with
  other tables, each returns the same result and the same state with those tables.
\<close>

lemma irl_ignores_multipliers:
  "is_rate_limited t u (s\<lparr>channel_multipliers := cm, seasonal_events := se\<rparr>) =
     (fst (is_rate_limited t u s),
      (snd (is_rate_limited t u s))\<lparr>channel_multipliers := cm, seasonal_events := se\<rparr>)"
  by (simp add: is_rate_limited_def Let_def)

lemma guc_ignores_multipliers:
  "get_user_clan now u g (s\<lparr>channel_multipliers := cm, seasonal_events := se\<rparr>) =
     (fst (get_user_clan now u g s),
      (snd (get_user_clan now u g s))\<lparr>channel_multipliers := cm, seasonal_events := se\<rparr>)"
  by (simp add: get_user_clan_def Let_def split: option.splits)

lemma gcp_ignores_multipliers:
  "get_clan_points now clan (s\<lparr>channel_multipliers := cm, seasonal_events := se\<rparr>) =
     (fst (get_clan_points now clan s),
      (snd (get_clan_points now clan s))\<lparr>channel_multipliers := cm, seasonal_events := se\<rparr>)"
  by (simp add: get_clan_points_def split: option.splits time_text.splits)

lemma can_add_ignores_multipliers:
  "can_add_to_clan now clan a (s\<lparr>channel_multipliers := cm, seasonal_events := se\<rparr>) =
     (fst (can_add_to_clan now clan a s),
      (snd (can_add_to_clan now clan a s))\<lparr>channel_multipliers := cm, seasonal_events := se\<rparr>)"
  by (simp add: can_add_to_clan_def gcp_ignores_multipliers case_prod_beta
      split: option.splits)

lemma cdl_ignores_multipliers:
  "check_daily_limit now u a (s\<lparr>channel_multipliers := cm, seasonal_events := se\<rparr>) =
     (fst (check_daily_limit now u a s),
      (snd (check_daily_limit now u a s))\<lparr>channel_multipliers := cm, seasonal_events := se\<rparr>)"
  by (simp add: check_daily_limit_def daily_lookup_def Let_def)

lemma ca_ignores_multipliers:
  "check_achievements now u (s\<lparr>channel_multipliers := cm, seasonal_events := se\<rparr>) =
     (fst (check_achievements now u s),
      (snd (check_achievements now u s))\<lparr>channel_multipliers := cm, seasonal_events := se\<rparr>)"
  by (simp add: check_achievements_def case_prod_beta split: option.splits)

lemma award_writes_ignores_multipliers:
  "award_writes now u clan a src ch cur
       (s\<lparr>channel_multipliers := cm, seasonal_events := se\<rparr>) =
     (award_writes now u clan a src ch cur s)
       \<lparr>channel_multipliers := cm, seasonal_events := se\<rparr>"
  by (simp add: award_writes_def daily_lookup_def Let_def split: option.splits)

lemma add_points_ignores_multipliers:
  "add_points_to_clan_and_user now u clan a src ch
       (s\<lparr>channel_multipliers := cm, seasonal_events := se\<rparr>) =
     (fst (add_points_to_clan_and_user now u clan a src ch s),
      (snd (add_points_to_clan_and_user now u clan a src ch s))
        \<lparr>channel_multipliers := cm, seasonal_events := se\<rparr>)"
  by (simp add: add_points_unfold can_add_ignores_multipliers cdl_ignores_multipliers
      gcp_ignores_multipliers award_writes_ignores_multipliers ca_ignores_multipliers
      split: option.splits)

lemma message_time_commutes:
  "(s\<lparr>channel_multipliers := cm, seasonal_events := se\<rparr>)\<lparr>last_message_time := x\<rparr> =
     (s\<lparr>last_message_time := x\<rparr>)\<lparr>channel_multipliers := cm, seasonal_events := se\<rparr>"
  by simp

lemma on_message_ignores_multipliers:
  "on_message t now msg (s\<lparr>channel_multipliers := cm, seasonal_events := se\<rparr>) =
     (fst (on_message t now msg s),
      (snd (on_message t now msg s))\<lparr>channel_multipliers := cm, seasonal_events := se\<rparr>)"
  by (simp add: on_message_def case_prod_beta Let_def
      irl_ignores_multipliers message_time_commutes guc_ignores_multipliers
      add_points_ignores_multipliers
      split: option.splits)

text \<open>The example clock readings and messages, evaluated.\<close>

lemma sat_noon_facts:
  "weekday sat_noon = 5" "day_of sat_noon = 738911"
  "get_week_start sat_noon = 738906 * 86400000000"
  by (simp_all add: weekday_def day_of_def get_week_start_def us_per_day_def sat_noon_def)

lemma wed_noon_facts:
  "weekday wed_noon = 2" "day_of wed_noon = 738908"
  "get_week_start wed_noon = 738906 * 86400000000"
  by (simp_all add: weekday_def day_of_def get_week_start_def us_per_day_def wed_noon_def)

lemma example_contents:
  "\<not> py_isspace (replicate 60 CHR ''a'')" "\<not> py_isspace ''hello world''"
  by (simp_all add: py_isspace_def is_space_char_def list_all_iff)

lemma example_amounts:
  "message_amount True sat_noon (replicate 60 CHR ''a'') = 8"
  "message_amount False wed_noon ''hello world'' = 1"
  by (simp_all add: message_amount_def sat_noon_facts wed_noon_facts py_int_def)

lemma vip_message_outcome:
  "fst (on_message 1000 sat_noon vip_message chat_state) = Awarded 8 None"
  by (simp add: on_message_def is_rate_limited_def MESSAGE_COOLDOWN_def vip_message_def
      chat_state_def empty_state_def example_contents get_user_clan_def
      demo_guild_def wolves_role_def vip_role_def example_amounts
      add_points_to_clan_and_user_def can_add_to_clan_def get_clan_points_def sat_noon_facts
      check_daily_limit_def daily_lookup_def MAX_DAILY_POINTS_def check_achievements_def
      milestones_def Let_def)

lemma doubled_state_eq:
  "doubled_state =
     chat_state\<lparr>channel_multipliers := [7 \<mapsto> \<lparr>multiplier = 2, channel_name = ''general''\<rparr>],
                seasonal_events := Map.empty\<rparr>"
  by (simp add: doubled_state_def setchannelmultiplier_def chat_state_def empty_state_def)

lemma plain_message_outcome:
  "fst (on_message 1000 wed_noon plain_message chat_state) = Awarded 1 None"
  by (simp add: on_message_def is_rate_limited_def MESSAGE_COOLDOWN_def plain_message_def
      chat_state_def empty_state_def example_contents get_user_clan_def
      demo_guild_def wolves_role_def vip_role_def example_amounts
      add_points_to_clan_and_user_def can_add_to_clan_def get_clan_points_def wed_noon_facts
      check_daily_limit_def daily_lookup_def MAX_DAILY_POINTS_def check_achievements_def
      milestones_def Let_def)

text \<open>
  C1, as stated, fails: on a Saturday, for a member who holds the bonus role and writes
  60 characters, the handler awards 8 points, not 9.
\<close>

theorem message_award_nine_counterexample:
  "bonus_role chat_state = Some ''VIP''
   \<and> ''VIP'' \<in> set (map role_name (author_roles vip_message))
   \<and> 5 \<le> weekday sat_noon
   \<and> 50 < length (content vip_message)
   \<and> fst (on_message 1000 sat_noon vip_message chat_state) = Awarded 8 None
   \<and> awarded_amount (fst (on_message 1000 sat_noon vip_message chat_state)) \<noteq> Some 9"
  by (simp add: vip_message_outcome sat_noon_facts)
    (simp add: chat_state_def empty_state_def vip_message_def vip_role_def wolves_role_def)

text \<open>
  C1, amended: for a message award where the member holds the configured bonus role
  (base 5), the time is a Saturday or Sunday (the product with 1.5 is truncated toward
  zero by \<open>int\<close>, giving 7) and the message is longer than 50 characters (+1, added
  after the weekend multiplier), the amount awarded is 8.
\<close>

theorem message_award_bonus_weekend_long:
  assumes "awarded_amount (fst (on_message t now msg s)) \<noteq> None"
      and "bonus_role s = Some b"
      and "b \<noteq> []"
      and "b \<in> set (map role_name (author_roles msg))"
      and "5 \<le> weekday now"
      and "50 < length (content msg)"
  shows "awarded_amount (fst (on_message t now msg s)) = Some 8
       \<and> py_int (real_of_int 5 * 1.5) + 1 = 8"
proof -
  have "message_amount True now (content msg) = 8"
    using assms(5,6) by (simp add: message_amount_def py_int_def)
  moreover have "py_int (real_of_int 5 * 1.5) + 1 = 8"
    by (simp add: py_int_def)
  ultimately show ?thesis
    using on_message_awarded [OF assms(1)] assms(2-4) by simp
qed

theorem message_award_bonus_weekend_long_witness:
  "awarded_amount (fst (on_message 1000 sat_noon vip_message chat_state)) = Some 8"
proof -
  have a: "awarded_amount (fst (on_message 1000 sat_noon vip_message chat_state)) \<noteq> None"
    by (simp add: vip_message_outcome)
  have b: "bonus_role chat_state = Some ''VIP''"
    by (simp add: chat_state_def empty_state_def)
  have c: "''VIP'' \<noteq> []" by simp
  have d: "''VIP'' \<in> set (map role_name (author_roles vip_message))"
    by (simp add: vip_message_def vip_role_def wolves_role_def)
  have e: "5 \<le> weekday sat_noon" by (simp add: sat_noon_facts)
  have f: "50 < length (content vip_message)" by (simp add: vip_message_def)
  from message_award_bonus_weekend_long [OF a b c d e f] show ?thesis by simp
qed

text \<open>
  C8: the bot stores a channel multiplier, announces it as the point multiplier of the
  channel, and never applies it. With the multiplier of channel 7 set to 2, a message in
  that channel whose message amount is 1 is awarded 1 point, where the channel
  multiplier applied before rounding gives 2.
\<close>

theorem channel_multiplier_not_applied:
  "fst (setchannelmultiplier 7 ''general'' 2 chat_state) = MultiplierSet
   \<and> channel_multipliers doubled_state (channel_id plain_message) =
       Some \<lparr>multiplier = 2, channel_name = ''general''\<rparr>
   \<and> fst (on_message 1000 wed_noon plain_message doubled_state) = Awarded 1 None
   \<and> spec_final_amount (message_amount False wed_noon (content plain_message))
         (map_option multiplier (channel_multipliers doubled_state (channel_id plain_message)))
         None = 2
   \<and> awarded_amount (fst (on_message 1000 wed_noon plain_message doubled_state)) \<noteq>
       Some (spec_final_amount (message_amount False wed_noon (content plain_message))
               (map_option multiplier
                  (channel_multipliers doubled_state (channel_id plain_message)))
               None)"
proof -
  have set: "fst (setchannelmultiplier 7 ''general'' 2 chat_state) = MultiplierSet"
    by (simp add: setchannelmultiplier_def)
  have cm: "channel_multipliers doubled_state (channel_id plain_message) =
       Some \<lparr>multiplier = 2, channel_name = ''general''\<rparr>"
    by (simp add: doubled_state_eq plain_message_def)
  have out: "fst (on_message 1000 wed_noon plain_message doubled_state) = Awarded 1 None"
    by (simp add: doubled_state_eq on_message_ignores_multipliers plain_message_outcome)
  have sp: "spec_final_amount (message_amount False wed_noon (content plain_message))
         (map_option multiplier (channel_multipliers doubled_state (channel_id plain_message)))
         None = 2"
    by (simp add: doubled_state_eq spec_final_amount_def round_half_up_def plain_message_def
        example_amounts)
  have ne: "awarded_amount (fst (on_message 1000 wed_noon plain_message doubled_state)) \<noteq>
       Some (spec_final_amount (message_amount False wed_noon (content plain_message))
               (map_option multiplier
                  (channel_multipliers doubled_state (channel_id plain_message)))
               None)"
    by (simp only: out sp awarded_amount.simps) simp
  from set cm out sp ne show ?thesis by blast
qed

text \<open>
  The extent of the defect: the message handler never reads the tables of channel
  multipliers and seasonal events. With other contents in them it has the same outcome
  and leaves the same state, those tables apart; and the amount of an award it makes is
  the message amount, computed from the bonus role, the weekend and the length of the
  message alone.
\<close>

theorem on_message_ignores_configured_multipliers:
  "fst (on_message t now msg (s\<lparr>channel_multipliers := cm, seasonal_events := se\<rparr>)) =
     fst (on_message t now msg s)
   \<and> snd (on_message t now msg (s\<lparr>channel_multipliers := cm, seasonal_events := se\<rparr>)) =
       (snd (on_message t now msg s))\<lparr>channel_multipliers := cm, seasonal_events := se\<rparr>
   \<and> (awarded_amount (fst (on_message t now msg s)) \<noteq> None \<longrightarrow>
        awarded_amount (fst (on_message t now msg s)) =
          Some (message_amount
                  (case bonus_role s of
                     None \<Rightarrow> False
                   | Some b \<Rightarrow> b \<noteq> [] \<and> b \<in> set (map role_name (author_roles msg)))
                  now (content msg)))"
  using on_message_awarded [of t now msg s]
  by (simp only: on_message_ignores_multipliers fst_conv snd_conv simp_thms) blast

theorem on_message_ignores_configured_multipliers_example:
  "fst (on_message 1000 wed_noon plain_message doubled_state) =
     fst (on_message 1000 wed_noon plain_message chat_state)
   \<and> awarded_amount (fst (on_message 1000 wed_noon plain_message chat_state)) = Some 1"
proof -
  have b: "bonus_role chat_state = Some ''VIP''"
    by (simp add: chat_state_def empty_state_def)
  have nb: "''VIP'' \<notin> set (map role_name (author_roles plain_message))"
    by (simp add: plain_message_def wolves_role_def)
  have c: "content plain_message = ''hello world''"
    by (simp add: plain_message_def)
  have a: "awarded_amount (fst (on_message 1000 wed_noon plain_message chat_state)) \<noteq> None"
    by (simp add: plain_message_outcome)
  from on_message_ignores_configured_multipliers
         [where t = 1000 and now = wed_noon and msg = plain_message and s = chat_state
            and cm = "[7 \<mapsto> \<lparr>multiplier = 2, channel_name = ''general''\<rparr>]"
            and se = Map.empty]
       a b nb
  show ?thesis
    by (simp add: doubled_state_eq c example_amounts)
qed

subsection \<open>The ledger\<close>

lemma ledger_sum_append:
  "ledger_sum (s\<lparr>logs := logs s @ [e]\<rparr>) u =
     ledger_sum s u + (if log_user_id e = u then amount e else 0)"
  by (simp add: ledger_sum_def)

lemma ledger_sum_logs: "logs s' = logs s \<Longrightarrow> ledger_sum s' u = ledger_sum s u"
  by (simp add: ledger_sum_def)

lemma stored_points_users: "users s' = users s \<Longrightarrow> stored_points s' u = stored_points s u"
  by (simp add: stored_points_def)

text \<open>The two paths that log what they write keep the ledger reconciled.\<close>

lemma add_points_keeps_ledger:
  assumes "ledger_sum s u' = stored_points s u'"
  shows "ledger_sum (snd (add_points_to_clan_and_user now u clan a src ch s)) u' =
           stored_points (snd (add_points_to_clan_and_user now u clan a src ch s)) u'"
proof -
  let ?s1 = "snd (get_clan_points now clan s)"
  have s1: "ledger_sum ?s1 u' = stored_points ?s1 u'"
    using assms by (simp add: ledger_sum_def stored_points_def gcp_fields)
  show ?thesis
  proof (cases "fst (can_add_to_clan now clan a s)")
    case False
    then show ?thesis using s1 by (simp add: add_points_refused_cap)
  next
    case ok: True
    show ?thesis
    proof (cases "fst (check_daily_limit now u a ?s1)")
      case False
      with ok s1 show ?thesis
        by (simp add: add_points_refused_daily ledger_sum_def stored_points_def cdl_fields)
    next
      case True
      note acc = add_points_accepted [OF ok True, of src ch]
      show ?thesis
        using assms
        by (simp add: ledger_sum_def stored_points_def acc(3) acc(4)
            split: option.splits)
    qed
  qed
qed

lemma removepoints_keeps_ledger:
  assumes "ledger_sum s u' = stored_points s u'"
  shows "ledger_sum (snd (removepoints now g ch u a s)) u' =
           stored_points (snd (removepoints now g ch u a s)) u'"
proof -
  let ?s1 = "snd (get_user_clan now u g s)"
  have s1: "ledger_sum ?s1 u' = stored_points ?s1 u'"
    using assms by (simp add: guc_stored_points ledger_sum_def guc_fields)
  have l1: "sum_list (map amount (filter (\<lambda>e. log_user_id e = u') (logs ?s1))) =
              stored_points ?s1 u'"
    using s1 by (simp add: ledger_sum_def)
  show ?thesis
    using assms s1 l1
    by (simp add: removepoints_def case_prod_beta Let_def gcp_locked_snd ledger_sum_def
        stored_points_def split: option.splits)
qed

text \<open>
  C2: the reconciliation of the log with the stored points is kept by awards and by
  administrative additions and removals (the two lemmas above), and broken by a shop
  purchase, which lowers the stored points and logs nothing. Here a user with 100
  points, all logged, buys a badge for 30: 70 points are stored and the log still sums
  to 100.
\<close>

theorem purchase_breaks_ledger:
  "ledger_sum shop_state 1 = stored_points shop_state 1
   \<and> fst (purchase 1 ''Badge'' shop_state) = Purchased
   \<and> stored_points (snd (purchase 1 ''Badge'' shop_state)) 1 = 70
   \<and> ledger_sum (snd (purchase 1 ''Badge'' shop_state)) 1 = 100"
  by (simp add: purchase_def shop_state_def empty_state_def ledger_sum_def stored_points_def)

subsection \<open>Administrative addition\<close>

lemma can_add_again:
  "fst (can_add_to_clan now clan a (snd (can_add_to_clan now clan a s))) =
     fst (can_add_to_clan now clan a s)"
  using gcp_again [of "snd (get_clan_points now clan s)" now clan s]
  by (simp add: can_add_fst can_add_snd split: option.splits)

text \<open>Nothing on the path of an administrative addition reads \<open>last_message_time\<close>.\<close>

lemma guc_ignores_message_time:
  "get_user_clan now u g (s\<lparr>last_message_time := lmt\<rparr>) =
     (fst (get_user_clan now u g s), (snd (get_user_clan now u g s))\<lparr>last_message_time := lmt\<rparr>)"
  by (simp add: get_user_clan_def Let_def split: option.splits)

lemma gcp_ignores_message_time:
  "get_clan_points now clan (s\<lparr>last_message_time := lmt\<rparr>) =
     (fst (get_clan_points now clan s),
      (snd (get_clan_points now clan s))\<lparr>last_message_time := lmt\<rparr>)"
  by (simp add: get_clan_points_def split: option.splits time_text.splits)

lemma can_add_ignores_message_time:
  "can_add_to_clan now clan a (s\<lparr>last_message_time := lmt\<rparr>) =
     (fst (can_add_to_clan now clan a s),
      (snd (can_add_to_clan now clan a s))\<lparr>last_message_time := lmt\<rparr>)"
  by (simp add: can_add_to_clan_def gcp_ignores_message_time case_prod_beta
      split: option.splits)

lemma cdl_ignores_message_time:
  "check_daily_limit now u a (s\<lparr>last_message_time := lmt\<rparr>) =
     (fst (check_daily_limit now u a s),
      (snd (check_daily_limit now u a s))\<lparr>last_message_time := lmt\<rparr>)"
  by (simp add: check_daily_limit_def daily_lookup_def Let_def)

lemma ca_ignores_message_time:
  "check_achievements now u (s\<lparr>last_message_time := lmt\<rparr>) =
     (fst (check_achievements now u s),
      (snd (check_achievements now u s))\<lparr>last_message_time := lmt\<rparr>)"
  by (simp add: check_achievements_def case_prod_beta split: option.splits)

lemma award_writes_ignores_message_time:
  "award_writes now u clan a src ch cur (s\<lparr>last_message_time := lmt\<rparr>) =
     (award_writes now u clan a src ch cur s)\<lparr>last_message_time := lmt\<rparr>"
  by (simp add: award_writes_def daily_lookup_def Let_def split: option.splits)

lemma add_points_ignores_message_time:
  "add_points_to_clan_and_user now u clan a src ch (s\<lparr>last_message_time := lmt\<rparr>) =
     (fst (add_points_to_clan_and_user now u clan a src ch s),
      (snd (add_points_to_clan_and_user now u clan a src ch s))\<lparr>last_message_time := lmt\<rparr>)"
  by (simp add: add_points_unfold can_add_ignores_message_time cdl_ignores_message_time
      gcp_ignores_message_time award_writes_ignores_message_time ca_ignores_message_time
      split: option.splits)

lemma addpoints_ignores_message_time:
  "addpoints now g ch u a (s\<lparr>last_message_time := lmt\<rparr>) =
     (fst (addpoints now g ch u a s), (snd (addpoints now g ch u a s))\<lparr>last_message_time := lmt\<rparr>)"
  by (simp add: addpoints_def case_prod_beta guc_ignores_message_time
      can_add_ignores_message_time gcp_ignores_message_time add_points_ignores_message_time
      split: option.splits)

lemma addpoints_outcome:
  assumes "0 < a" and "a \<le> 10000"
      and "fst (get_user_clan now u g s) = Some clan" and "clan \<noteq> []"
      and "fst (can_add_to_clan now clan a (snd (get_user_clan now u g s)))"
  shows "fst (addpoints now g ch u a s) =
           (if awarded_today now s u + a \<le> 500 then Added else AddFailed)"
proof -
  let ?s1 = "snd (get_user_clan now u g s)"
  let ?s2 = "snd (can_add_to_clan now clan a ?s1)"
  have ok2: "fst (can_add_to_clan now clan a ?s2)"
    using assms(5) by (simp add: can_add_again)
  have t: "awarded_today now ?s2 u = awarded_today now s u"
    by (simp add: awarded_today_def daily_lookup_def can_add_snd gcp_fields guc_fields)
  have "fst (add_points_to_clan_and_user now u clan a ''admin'' (Some ch) ?s2) =
          (awarded_today now s u + a \<le> 500)"
    using add_points_fst [OF ok2, of u "''admin''" "Some ch"] by (simp add: t)
  then show ?thesis
    using assms by (simp add: addpoints_def case_prod_beta)
qed

lemma addpoints_above_daily_cap:
  assumes "500 < a" and "0 \<le> awarded_today now s u"
  shows "fst (addpoints now g ch u a s) \<noteq> Added"
proof -
  have no: "\<not> fst (add_points_to_clan_and_user now u clan a ''admin'' (Some ch) s')"
    if same: "awarded_today now s' u = awarded_today now s u" for clan s'
  proof (cases "fst (can_add_to_clan now clan a s')")
    case True
    from add_points_fst [OF True, of u "''admin''" "Some ch"] same assms
    show ?thesis by simp
  next
    case False
    then show ?thesis by (simp add: add_points_refused_cap)
  qed
  have same: "awarded_today now
                (snd (can_add_to_clan now clan a (snd (get_user_clan now u g s)))) u =
              awarded_today now s u" for clan
    by (simp add: awarded_today_def daily_lookup_def can_add_snd gcp_fields guc_fields)
  show ?thesis
    using no [OF same]
    by (simp add: addpoints_def case_prod_beta split: option.splits)
qed

text \<open>
  C4: an administrative addition goes through \<open>add_points_to_clan_and_user\<close> and so
  through the daily budget, although \<open>addpoints\<close> itself admits up to 10000 points at
  once. An addition of 600 for a member with nothing awarded today, and one of 300 for a
  member with 300 awarded today, are both refused although the clan cap permits them;
  the stored points stay as they were. By the lemma above no addition of more than 500
  ever succeeds.
\<close>

theorem addpoints_refused_by_daily_budget:
  "fst (can_add_to_clan wed_noon ''Wolves'' 600 fresh_member_state)
   \<and> daily_lookup fresh_member_state 1 = \<lparr>date = None, daily_points = 0\<rparr>
   \<and> fst (addpoints wed_noon None 7 1 600 fresh_member_state) = AddFailed
   \<and> stored_points (snd (addpoints wed_noon None 7 1 600 fresh_member_state)) 1 = 0
   \<and> fst (can_add_to_clan wed_noon ''Wolves'' 300 budget_state)
   \<and> fst (addpoints wed_noon None 7 1 300 budget_state) = AddFailed
   \<and> stored_points (snd (addpoints wed_noon None 7 1 300 budget_state)) 1 = 300"
proof -
  have a: "fst (can_add_to_clan wed_noon ''Wolves'' 600 fresh_member_state)"
    by (simp add: can_add_to_clan_def get_clan_points_def fresh_member_state_def
        chat_state_def empty_state_def wed_noon_facts)
  have b: "daily_lookup fresh_member_state 1 = \<lparr>date = None, daily_points = 0\<rparr>"
    by (simp add: daily_lookup_def fresh_member_state_def chat_state_def empty_state_def)
  have c: "addpoints wed_noon None 7 1 600 fresh_member_state =
             (AddFailed,
              fresh_member_state\<lparr>user_daily_points :=
                 [1 \<mapsto> \<lparr>date = Some 738908, daily_points = 0\<rparr>]\<rparr>)"
    by (simp add: addpoints_def get_user_clan_def add_points_to_clan_and_user_def
        can_add_to_clan_def get_clan_points_def check_daily_limit_def daily_lookup_def
        MAX_DAILY_POINTS_def fresh_member_state_def chat_state_def empty_state_def
        wed_noon_facts Let_def)
  have d: "stored_points (snd (addpoints wed_noon None 7 1 600 fresh_member_state)) 1 = 0"
    by (simp only: c snd_conv)
      (simp add: stored_points_def fresh_member_state_def chat_state_def empty_state_def)
  have e: "fst (can_add_to_clan wed_noon ''Wolves'' 300 budget_state)"
    by (simp add: can_add_to_clan_def get_clan_points_def budget_state_def
        empty_state_def wed_noon_facts)
  have f: "addpoints wed_noon None 7 1 300 budget_state = (AddFailed, budget_state)"
    by (simp add: addpoints_def get_user_clan_def add_points_to_clan_and_user_def
        can_add_to_clan_def get_clan_points_def check_daily_limit_def daily_lookup_def
        MAX_DAILY_POINTS_def budget_state_def empty_state_def
        wed_noon_facts Let_def)
  have g: "stored_points (snd (addpoints wed_noon None 7 1 300 budget_state)) 1 = 300"
    by (simp only: f snd_conv) (simp add: stored_points_def budget_state_def empty_state_def)
  from a b c d e f g show ?thesis by simp
qed

text \<open>
  The extent of the defect: the administrative addition skips the rate limiter, but not
  the daily budget. For every user in a clan and every valid amount (positive, at most
  10000) that the clan cap permits, the addition succeeds exactly when the points
  awarded to the user during the current day plus the amount do not exceed 500; and its
  outcome and the state it leaves are the same whatever the rate limiter has recorded.
\<close>

theorem addpoints_subject_to_daily_budget:
  assumes "0 < a" and "a \<le> 10000"
      and "fst (get_user_clan now u g s) = Some clan" and "clan \<noteq> []"
      and "fst (can_add_to_clan now clan a (snd (get_user_clan now u g s)))"
  shows "fst (addpoints now g ch u a s) =
           (if awarded_today now s u + a \<le> 500 then Added else AddFailed)
       \<and> addpoints now g ch u a (s\<lparr>last_message_time := lmt\<rparr>) =
           (fst (addpoints now g ch u a s),
            (snd (addpoints now g ch u a s))\<lparr>last_message_time := lmt\<rparr>)"
  using addpoints_outcome [OF assms, of ch] addpoints_ignores_message_time [of now g ch u a lmt s]
  by simp

theorem addpoints_subject_to_daily_budget_example:
  "fst (addpoints wed_noon None 7 1 200 budget_state) = Added
   \<and> fst (addpoints wed_noon None 7 1 201 budget_state) = AddFailed
   \<and> fst (addpoints wed_noon None 7 1 200 (budget_state\<lparr>last_message_time := [1 \<mapsto> 0]\<rparr>)) =
       Added"
proof -
  have c: "fst (get_user_clan wed_noon 1 None budget_state) = Some ''Wolves''"
    and s1: "snd (get_user_clan wed_noon 1 None budget_state) = budget_state"
    by (simp_all add: get_user_clan_def budget_state_def empty_state_def)
  have ne: "''Wolves'' \<noteq> []" by simp
  have cap: "fst (can_add_to_clan wed_noon ''Wolves'' 200
                    (snd (get_user_clan wed_noon 1 None budget_state)))"
      "fst (can_add_to_clan wed_noon ''Wolves'' 201
                    (snd (get_user_clan wed_noon 1 None budget_state)))"
    unfolding s1
    by (simp_all add: can_add_to_clan_def get_clan_points_def budget_state_def
        empty_state_def wed_noon_facts)
  have t: "awarded_today wed_noon budget_state 1 = 300"
    by (simp add: awarded_today_def daily_lookup_def budget_state_def empty_state_def
        wed_noon_facts)
  have p: "(0::int) < 200" "(200::int) \<le> 10000" "(0::int) < 201" "(201::int) \<le> 10000"
    by simp_all
  note a = addpoints_subject_to_daily_budget [OF p(1) p(2) c ne cap(1), of 7 "[1 \<mapsto> 0]"]
  note b = addpoints_subject_to_daily_budget [OF p(3) p(4) c ne cap(2), of 7 "[1 \<mapsto> 0]"]
  from a b show ?thesis by (simp add: t)
qed

end
